theory Spec2Isabelle
  imports Main
begin

section \<open>JavaScript values\<close>

text \<open>
  The ticket API controller (\<^verbatim>\<open>src/controllers/api/v1/tickets.js\<close>) works on dynamically
  typed values: request bodies, route parameters, Mongoose documents, error objects.
  They are modelled by one datatype. An object is an association list from property
  names to values, in insertion order. Numbers are the integer-valued ones (timestamps,
  status codes, counters); the handlers do no arithmetic on them.
\<close>

datatype jsval =
    Undefined
  | Null
  | Bool bool
  | Num int
  | Str string
  | Arr "jsval list"
  | Obj "(string \<times> jsval) list"

text \<open>Property read \<^verbatim>\<open>o.k\<close> on a value that is not \<^verbatim>\<open>null\<close> or \<^verbatim>\<open>undefined\<close>: an absent
  property reads as \<^verbatim>\<open>undefined\<close>. The handlers read only named properties, never
  \<^verbatim>\<open>length\<close> or an index, so a primitive or an array has none of them.\<close>

fun get :: "jsval \<Rightarrow> string \<Rightarrow> jsval" where
  "get (Obj kvs) k = (case map_of kvs k of Some v \<Rightarrow> v | None \<Rightarrow> Undefined)"
| "get _ k = Undefined"

text \<open>Property write \<^verbatim>\<open>o.k = v\<close> on an object: an existing property keeps its place, a new
  one is added at the end.\<close>

fun upd :: "(string \<times> jsval) list \<Rightarrow> string \<Rightarrow> jsval \<Rightarrow> (string \<times> jsval) list" where
  "upd [] k v = [(k, v)]"
| "upd ((k', v') # kvs) k v = (if k' = k then (k, v) # kvs else (k', v') # upd kvs k v)"

fun put :: "jsval \<Rightarrow> string \<Rightarrow> jsval \<Rightarrow> jsval" where
  "put (Obj kvs) k v = Obj (upd kvs k v)"
| "put x k v = x"

text \<open>A property read or write on \<^verbatim>\<open>null\<close> or \<^verbatim>\<open>undefined\<close> throws a TypeError.\<close>

definition nullish :: "jsval \<Rightarrow> bool" where
  "nullish v = (v = Undefined \<or> v = Null)"

text \<open>The truth value JavaScript gives a value in \<^verbatim>\<open>if (v)\<close> and \<^verbatim>\<open>!v\<close>.\<close>

fun truthy :: "jsval \<Rightarrow> bool" where
  "truthy Undefined = False"
| "truthy Null = False"
| "truthy (Bool b) = b"
| "truthy (Num n) = (n \<noteq> 0)"
| "truthy (Str s) = (s \<noteq> [])"
| "truthy (Arr xs) = True"
| "truthy (Obj kvs) = True"

text \<open>The predicates of the underscore library that the handlers call.\<close>

definition isUndefined :: "jsval \<Rightarrow> bool" where
  "isUndefined v = (v = Undefined)"

definition isNull :: "jsval \<Rightarrow> bool" where
  "isNull v = (v = Null)"

fun isObject :: "jsval \<Rightarrow> bool" where
  "isObject (Obj kvs) = True"
| "isObject (Arr xs) = True"
| "isObject _ = False"

text \<open>A Mongoose document is an object; calling one of its methods (\<^verbatim>\<open>save\<close>,
  \<^verbatim>\<open>getAttachment\<close>, \<^verbatim>\<open>addSubscriber\<close>, ...) on anything else throws a TypeError.\<close>

fun isDocument :: "jsval \<Rightarrow> bool" where
  "isDocument (Obj kvs) = True"
| "isDocument _ = False"

section \<open>String helpers\<close>

definition CR :: char where "CR = CHR 0x0D"
definition LF :: char where "LF = CHR 0x0A"

text \<open>\<^verbatim>\<open>s.replace(/(\r\n|\n\r|\r|\n)/g, "<br>")\<close>: scanning from the left, a CR LF pair, an
  LF CR pair, a lone CR or a lone LF becomes \<^verbatim>\<open><br>\<close>; the alternatives are tried in
  that order.\<close>

fun nl2br :: "string \<Rightarrow> string" where
  "nl2br [] = []"
| "nl2br [c] = (if c = CR \<or> c = LF then ''<br>'' else [c])"
| "nl2br (c # d # cs) =
     (if (c = CR \<and> d = LF) \<or> (c = LF \<and> d = CR) then ''<br>'' @ nl2br cs
      else if c = CR \<or> c = LF then ''<br>'' @ nl2br (d # cs)
      else c # nl2br (d # cs))"

text \<open>\<^verbatim>\<open>t.split(',')\<close>: the pieces between commas, at least one piece.\<close>

fun split_comma :: "string \<Rightarrow> string list" where
  "split_comma [] = [[]]"
| "split_comma (c # cs) =
     (if c = CHR '','' then [] # split_comma cs
      else (case split_comma cs of [] \<Rightarrow> [[c]] | p # ps \<Rightarrow> (c # p) # ps))"

text \<open>\<^verbatim>\<open>_.compact(array)\<close> drops the falsy elements; of strings, the empty ones.\<close>

definition compact :: "string list \<Rightarrow> string list" where
  "compact xs = filter (\<lambda>s. s \<noteq> []) xs"

text \<open>\<^verbatim>\<open>pieces.join(',')\<close>, the inverse of the split: it states what the split computes.\<close>

fun joinComma :: "string list \<Rightarrow> string" where
  "joinComma [] = []"
| "joinComma [p] = p"
| "joinComma (p # q # ps) = p @ CHR '','' # joinComma (q # ps)"

section \<open>Requests, responses, collaborators\<close>

record request =
  params :: "(string \<times> jsval) list"
  headers :: "(string \<times> jsval) list"
  body :: jsval
  user :: jsval

text \<open>\<^verbatim>\<open>res.status(n).json(b)\<close>, \<^verbatim>\<open>res.status(n).send(b)\<close>; \<^verbatim>\<open>res.json(b)\<close> and \<^verbatim>\<open>res.send(b)\<close>
  answer with status 200.\<close>

datatype response = Response (status: nat) (payload: jsval)

datatype js_error = TypeError | FsError

text \<open>What a handler does to its collaborators, in order: lookups, model methods, saves,
  file removal.\<close>

datatype store_op =
    UserLookup jsval
  | Lookup jsval
  | LookupUid jsval
  | RemoveAttachment jsval jsval jsval
  | Unlink string
  | Save jsval
  | Populate jsval string

text \<open>The outcome of one handler call: the response sent (if any), the operations on the
  store, the events emitted on the process-wide emitter, and the exception that ended the
  call (if any).\<close>

record outcome =
  response :: "response option"
  ops :: "store_op list"
  emitted :: "(string \<times> jsval list) list"
  thrown :: "js_error option"

definition respond :: "store_op list \<Rightarrow> (string \<times> jsval list) list \<Rightarrow> nat \<Rightarrow> jsval \<Rightarrow> outcome" where
  "respond os es n b = \<lparr>response = Some (Response n b), ops = os, emitted = es, thrown = None\<rparr>"

definition throw :: "store_op list \<Rightarrow> js_error \<Rightarrow> outcome" where
  "throw os e = \<lparr>response = None, ops = os, emitted = [], thrown = Some e\<rparr>"

definition silent :: "store_op list \<Rightarrow> outcome" where
  "silent os = \<lparr>response = None, ops = os, emitted = [], thrown = None\<rparr>"

text \<open>
  The collaborators that are not part of the controller: the ticket and user models
  (Mongoose), the markdown renderer, the permission table, the clock and the file system.
  Each is a parameter. A Node callback \<^verbatim>\<open>function(err, value)\<close> is the pair
  \<open>(err, value)\<close> that the collaborator calls it with, once.
  \<^item> \<open>ticketModel\<close>: \<^verbatim>\<open>new ticketModel(postData)\<close>, the fields of the fresh document;
  \<^item> \<open>save\<close>: \<^verbatim>\<open>doc.save(cb)\<close>; \<open>populate\<close>: \<^verbatim>\<open>ticketModel.populate(doc, path, cb)\<close>,
    which fills the document in place;
  \<^item> \<open>getTicketById\<close>, \<open>getTicketByUid\<close>, \<open>getUserByAccessToken\<close>: the lookups;
  \<^item> \<open>canThis\<close>: \<^verbatim>\<open>permissions.canThis(role, action)\<close>; \<open>marked\<close>: the markdown renderer;
  \<^item> \<open>docGetAttachment\<close>, \<open>docRemoveAttachment\<close>: the document methods
    \<^verbatim>\<open>ticket.getAttachment(aid, cb)\<close> and \<^verbatim>\<open>ticket.removeAttachment(uid, aid, cb)\<close>;
  \<^item> \<open>sClean\<close>: \<^verbatim>\<open>_s.clean(x)\<close> of the underscore.string library, which makes a string of
    its argument, trims it and collapses its whitespace; the library and its version
    are not among the sources;
  \<^item> \<open>newDate\<close>, \<open>dateNow\<close>: the clock read by \<^verbatim>\<open>new Date()\<close> and \<^verbatim>\<open>Date.now()\<close>, in
    milliseconds;
  \<^item> \<open>publicPath\<close>: \<^verbatim>\<open>path.join(__dirname, '../../../../public', p)\<close>;
    \<open>existsSync\<close>: \<^verbatim>\<open>fs.existsSync\<close>; \<open>unlinkFails\<close>: whether \<^verbatim>\<open>fs.unlinkSync\<close> throws.
  A document is the plain object of its fields: an assignment \<^verbatim>\<open>doc.k = v\<close> stores \<open>v\<close>, and
  what the schema of the model makes of the value is left to \<open>save\<close>.
\<close>

record env =
  ticketModel :: "jsval \<Rightarrow> (string \<times> jsval) list"
  save :: "jsval \<Rightarrow> jsval \<times> jsval"
  populate :: "jsval \<Rightarrow> string \<Rightarrow> jsval \<times> jsval"
  getTicketById :: "jsval \<Rightarrow> jsval \<times> jsval"
  getTicketByUid :: "jsval \<Rightarrow> jsval \<times> jsval"
  getUserByAccessToken :: "jsval \<Rightarrow> jsval \<times> jsval"
  docGetAttachment :: "jsval \<Rightarrow> jsval \<Rightarrow> jsval"
  docRemoveAttachment :: "jsval \<Rightarrow> jsval \<Rightarrow> jsval \<Rightarrow> jsval \<times> jsval"
  canThis :: "jsval \<Rightarrow> string \<Rightarrow> bool"
  marked :: "string \<Rightarrow> string"
  sClean :: "jsval \<Rightarrow> string"
  newDate :: int
  dateNow :: int
  publicPath :: "string \<Rightarrow> string"
  existsSync :: "string \<Rightarrow> bool"
  unlinkFails :: "string \<Rightarrow> bool"

definition param :: "request \<Rightarrow> string \<Rightarrow> jsval" where
  "param req k = (case map_of (params req) k of Some v \<Rightarrow> v | None \<Rightarrow> Undefined)"

definition header :: "request \<Rightarrow> string \<Rightarrow> jsval" where
  "header req k = (case map_of (headers req) k of Some v \<Rightarrow> v | None \<Rightarrow> Undefined)"

section \<open>The handlers\<close>

subsection \<open>\<^verbatim>\<open>api_tickets.create\<close>\<close>

text \<open>Lines 147 to 151: the tags of the new ticket.\<close>

definition createTags :: "env \<Rightarrow> jsval \<Rightarrow> string list" where
  "createTags env postData =
     (if \<not> isUndefined (get postData ''tags'')
      then compact (split_comma (sClean env (get postData ''tags'')))
      else [])"

definition createdHistoryItem :: "jsval \<Rightarrow> jsval" where
  "createdHistoryItem uid =
     Obj [(''action'', Str ''ticket:created''),
          (''description'', Str ''Ticket was created.''),
          (''owner'', uid)]"

text \<open>\<^verbatim>\<open>req.user._id\<close> throws when there is no user; \<^verbatim>\<open>tIssue.replace(...)\<close> throws unless
  the issue of the fresh document is a string.\<close>

definition create :: "env \<Rightarrow> request \<Rightarrow> outcome" where
  "create env req =
     (let postData = body req in
      if \<not> isObject postData
        then respond [] [] 400
               (Obj [(''success'', Bool False), (''error'', Str ''Invalid Post Data'')])
      else
        let socketId = (if isUndefined (get postData ''socketId'') then Str []
                        else get postData ''socketId'');
            tags = createTags env postData
        in
        if nullish (user req) then throw [] TypeError
        else
          let HistoryItem = createdHistoryItem (get (user req) ''_id'');
              ticket = put (Obj (ticketModel env postData)) ''owner'' (get (user req) ''_id'')
          in
          (case get ticket ''issue'' of
             Str tIssue \<Rightarrow>
               let ticket = put ticket ''issue'' (Str (marked env (nl2br tIssue)));
                   ticket = put ticket ''tags'' (Arr (map Str tags));
                   ticket = put ticket ''history'' (Arr [HistoryItem]);
                   ticket = put ticket ''subscribers'' (Arr [get (user req) ''_id''])
               in
               (case save env ticket of (err, t) \<Rightarrow>
                  if truthy err
                    then respond [Save ticket] [] 400
                           (Obj [(''success'', Bool False), (''error'', err)])
                  else respond [Save ticket]
                         [(''ticket:created'', [Obj [(''socketId'', socketId), (''ticket'', t)]])]
                         200 (Obj [(''success'', Bool True), (''ticket'', t)]))
           | _ \<Rightarrow> throw [] TypeError))"

subsection \<open>\<^verbatim>\<open>api_tickets.single\<close>\<close>

definition invalidTicket :: jsval where
  "invalidTicket = Obj [(''success'', Bool False), (''error'', Str ''Invalid Ticket'')]"

definition single :: "env \<Rightarrow> request \<Rightarrow> outcome" where
  "single env req =
     (let uid = param req ''uid'' in
      if isUndefined uid then respond [] [] 200 invalidTicket
      else
        (case getTicketByUid env uid of (err, ticket) \<Rightarrow>
           if truthy err then respond [LookupUid uid] [] 200 err
           else if isUndefined ticket \<or> isNull ticket
             then respond [LookupUid uid] [] 200 invalidTicket
           else respond [LookupUid uid] [] 200
                  (Obj [(''success'', Bool True), (''ticket'', ticket)])))"

subsection \<open>\<^verbatim>\<open>api_tickets.update\<close>\<close>

text \<open>Inside the lookup's callback, \<^verbatim>\<open>reqTicket.status\<close> throws when the request has no
  body, and the assignments or \<^verbatim>\<open>ticket.save\<close> throw when the lookup gave no document.
  With no user, the body of the handler is skipped and nothing is sent.\<close>

definition update :: "env \<Rightarrow> request \<Rightarrow> outcome" where
  "update env req =
     (if \<not> isUndefined (user req) \<and> \<not> isNull (user req) then
        let oId = param req ''id''; reqTicket = body req in
        if isUndefined oId then respond [] [] 200 (Str ''Invalid Ticket Id'')
        else
          (case getTicketById env oId of (err, ticket) \<Rightarrow>
             if truthy err then respond [Lookup oId] [] 200 (get err ''message'')
             else if nullish reqTicket \<or> \<not> isDocument ticket then throw [Lookup oId] TypeError
             else
               let ticket = (if \<not> isUndefined (get reqTicket ''status'')
                             then put ticket ''status'' (get reqTicket ''status'') else ticket);
                   ticket = (if \<not> isUndefined (get reqTicket ''group'')
                             then put ticket ''group'' (get reqTicket ''group'') else ticket);
                   ticket = (if \<not> isUndefined (get reqTicket ''closedDate'')
                             then put ticket ''closedDate'' (get reqTicket ''closedDate'')
                             else ticket)
               in
               (case save env ticket of (err, t) \<Rightarrow>
                  if truthy err
                    then respond [Lookup oId, Save ticket] [] 200 (get err ''message'')
                  else respond [Lookup oId, Save ticket] [(''ticket:updated'', [t])] 200 t))
      else silent [])"

subsection \<open>\<^verbatim>\<open>api_tickets.postComment\<close>\<close>

definition commentHistoryItem :: "jsval \<Rightarrow> jsval" where
  "commentHistoryItem uid =
     Obj [(''action'', Str ''ticket:comment:added''),
          (''description'', Str ''Comment was added''),
          (''owner'', uid)]"

text \<open>\<^verbatim>\<open>comment.replace(...)\<close> throws unless the comment is a string; \<^verbatim>\<open>t.comments.push\<close>
  and \<^verbatim>\<open>t.history.push\<close> throw unless the document has these arrays. When populating
  fails the handler returns without a response.\<close>

definition postComment :: "env \<Rightarrow> request \<Rightarrow> outcome" where
  "postComment env req =
     (let accessToken = header req ''accesstoken'' in
      case getUserByAccessToken env accessToken of (err, usr) \<Rightarrow>
        if truthy err
          then respond [UserLookup accessToken] [] 401 (Obj [(''error'', get err ''message'')])
        else if \<not> truthy usr
          then respond [UserLookup accessToken] [] 401 (Obj [(''error'', Str ''Unknown User'')])
        else
          let commentJson = body req in
          if nullish commentJson then throw [UserLookup accessToken] TypeError
          else
            let comment = get commentJson ''comment'';
                owner = get commentJson ''ownerId'';
                ticketId = get commentJson ''_id'';
                os = [UserLookup accessToken, Lookup ticketId]
            in
            if isUndefined ticketId
              then respond [UserLookup accessToken] [] 200 (Str ''Invalid Ticket Id'')
            else
              (case getTicketById env ticketId of (err, t) \<Rightarrow>
                 if truthy err then respond os [] 200 (get err ''message'')
                 else if isUndefined comment then respond os [] 200 (Str ''Invalid Comment'')
                 else
                   (case comment of
                      Str c \<Rightarrow>
                        let Comment = Obj [(''owner'', owner),
                                           (''date'', Num (newDate env)),
                                           (''comment'', Str (marked env (nl2br c)))]
                        in
                        if \<not> isDocument t then throw os TypeError
                        else
                          let t = put t ''updated'' (Num (dateNow env)) in
                          (case get t ''comments'' of
                             Arr cs \<Rightarrow>
                               let t = put t ''comments'' (Arr (cs @ [Comment]));
                                   HistoryItem = commentHistoryItem (get usr ''_id'')
                               in
                               (case get t ''history'' of
                                  Arr hs \<Rightarrow>
                                    let t = put t ''history'' (Arr (hs @ [HistoryItem])) in
                                    (case save env t of (err, tt) \<Rightarrow>
                                       if truthy err
                                         then respond (os @ [Save t]) [] 200 (get err ''message'')
                                       else
                                         (case populate env tt ''comments.owner'' of (err, tt') \<Rightarrow>
                                            if truthy err
                                              then silent (os @ [Save t, Populate tt ''comments.owner''])
                                            else respond (os @ [Save t, Populate tt ''comments.owner''])
                                                   [(''ticket:comment:added'', [tt', Comment])]
                                                   200 (Obj [(''ticket'', tt')])))
                                | _ \<Rightarrow> throw os TypeError)
                           | _ \<Rightarrow> throw os TypeError)
                    | _ \<Rightarrow> throw os TypeError)))"

subsection \<open>\<^verbatim>\<open>api_tickets.removeAttachment\<close>\<close>

text \<open>\<^verbatim>\<open>user.role\<close> throws on a \<^verbatim>\<open>null\<close> user; \<^verbatim>\<open>path.join(..., a.path)\<close> throws unless the
  attachment found has a string path.\<close>

definition removeAttachment :: "env \<Rightarrow> request \<Rightarrow> outcome" where
  "removeAttachment env req =
     (let ticketId = param req ''tid''; attachmentId = param req ''aid'' in
      if isUndefined ticketId \<or> isUndefined attachmentId
        then respond [] [] 400 (Obj [(''error'', Str ''Invalid Attachment'')])
      else if isUndefined (user req)
        then respond [] [] 400 (Obj [(''error'', Str ''Invalid User Auth.'')])
      else if isNull (user req) then throw [] TypeError
      else if \<not> canThis env (get (user req) ''role'') ''tickets:removeAttachment''
        then respond [] [] 401 (Obj [(''error'', Str ''Invalid Permissions'')])
      else
        (case getTicketById env ticketId of (err, ticket) \<Rightarrow>
           if truthy err then respond [Lookup ticketId] [] 400 (Str ''Invalid Ticket Id'')
           else if \<not> isDocument ticket then throw [Lookup ticketId] TypeError
           else
             let a = docGetAttachment env ticket attachmentId;
                 os = [Lookup ticketId,
                       RemoveAttachment ticket (get (user req) ''_id'') attachmentId]
             in
             (case docRemoveAttachment env ticket (get (user req) ''_id'') attachmentId of
                (err, ticket') \<Rightarrow>
                  if truthy err then respond os [] 400 (Obj [(''error'', Str ''Invalid Request.'')])
                  else
                    (case get a ''path'' of
                       Str p \<Rightarrow>
                         let dir = publicPath env p in
                         if existsSync env dir \<and> unlinkFails env dir then throw os FsError
                         else
                           let os = (if existsSync env dir then os @ [Unlink dir] else os) in
                           if \<not> isDocument ticket' then throw os TypeError
                           else
                             (case save env ticket' of (err, t) \<Rightarrow>
                                if truthy err
                                  then respond (os @ [Save ticket']) [] 401
                                         (Obj [(''error'', Str ''Invalid Request.'')])
                                else respond (os @ [Save ticket']) [] 200 t)
                     | _ \<Rightarrow> throw os TypeError))))"

subsection \<open>\<^verbatim>\<open>api_tickets.subscribe\<close>\<close>

text \<open>
  Modelled from the spec: \<^verbatim>\<open>addSubscriber\<close> and \<^verbatim>\<open>removeSubscriber\<close> are methods of the
  ticket model (\<^verbatim>\<open>models/ticket\<close>), which is not among the sources. The spec's data model
  makes \<^verbatim>\<open>subscribers\<close> a set of user references and says that subscribe toggles
  subscription membership: adding a user who is a member leaves the set as it is, adding
  another user puts the reference in, removing takes the user's reference out.
\<close>

definition subscribersOf :: "jsval \<Rightarrow> jsval list" where
  "subscribersOf ticket = (case get ticket ''subscribers'' of Arr us \<Rightarrow> us | _ \<Rightarrow> [])"

definition addSubscriber :: "jsval \<Rightarrow> jsval \<Rightarrow> jsval" where
  "addSubscriber ticket u =
     (if u \<in> set (subscribersOf ticket) then ticket
      else put ticket ''subscribers'' (Arr (subscribersOf ticket @ [u])))"

definition removeSubscriber :: "jsval \<Rightarrow> jsval \<Rightarrow> jsval" where
  "removeSubscriber ticket u =
     (if u \<in> set (subscribersOf ticket)
      then put ticket ''subscribers'' (Arr (filter (\<lambda>x. x \<noteq> u) (subscribersOf ticket)))
      else ticket)"

text \<open>\<^verbatim>\<open>data.user\<close> throws when the request has no body; \<^verbatim>\<open>ticket.addSubscriber\<close> throws
  when the lookup gave no document.\<close>

definition subscribe :: "env \<Rightarrow> request \<Rightarrow> outcome" where
  "subscribe env req =
     (let ticketId = param req ''id''; data = body req in
      if nullish data then throw [] TypeError
      else if isUndefined (get data ''user'') \<or> isUndefined (get data ''subscribe'')
        then respond [] [] 400 (Obj [(''error'', Str ''Invalid Payload.'')])
      else
        (case getTicketById env ticketId of (err, ticket) \<Rightarrow>
           if truthy err
             then respond [Lookup ticketId] [] 400 (Obj [(''error'', Str ''Invalid Ticket Id'')])
           else if \<not> isDocument ticket then throw [Lookup ticketId] TypeError
           else
             let ticket = (if truthy (get data ''subscribe'')
                           then addSubscriber ticket (get data ''user'')
                           else removeSubscriber ticket (get data ''user''))
             in
             (case save env ticket of (err, t) \<Rightarrow>
                if truthy err
                  then respond [Lookup ticketId, Save ticket] [] 400 (Obj [(''error'', err)])
                else respond [Lookup ticketId, Save ticket] [(''ticket:subscribers:update'', [])]
                       200 (Obj [(''success'', Bool True)]))))"

subsection \<open>Calls in sequence\<close>

text \<open>
  Modelled from the spec: the ticket store (\<^verbatim>\<open>models/ticket\<close>, over the document
  database) is not among the sources. The spec describes a collection holding ticket
  records with query and update operations, and handlers that read, modify and write a
  record. So a lookup by id calls back with the record the store holds, and a save
  that reports no error replaces that record by the document saved.
  \<^item> \<open>withTicket env tid t\<close>: the environment whose store holds \<open>t\<close> under \<open>tid\<close>;
  \<^item> \<open>storedAfter env t os\<close>: the record held after the operations \<open>os\<close>, when it was
    \<open>t\<close> before;
  \<^item> \<open>subscribeTwice\<close>: two \<^verbatim>\<open>subscribe\<close> calls for the same ticket and user, one after
    the other, and the record held in the end.
\<close>

definition withTicket :: "env \<Rightarrow> jsval \<Rightarrow> jsval \<Rightarrow> env" where
  "withTicket env tid t =
     env\<lparr>getTicketById := (\<lambda>i. if i = tid then (Null, t) else getTicketById env i)\<rparr>"

fun storedAfter :: "env \<Rightarrow> jsval \<Rightarrow> store_op list \<Rightarrow> jsval" where
  "storedAfter env t [] = t"
| "storedAfter env t (Save d # os) = storedAfter env (if truthy (fst (save env d)) then t else d) os"
| "storedAfter env t (_ # os) = storedAfter env t os"

definition subscribeRequest :: "jsval \<Rightarrow> jsval \<Rightarrow> jsval \<Rightarrow> request" where
  "subscribeRequest tid u flag =
     \<lparr>params = [(''id'', tid)], headers = [],
      body = Obj [(''user'', u), (''subscribe'', flag)], user = Undefined\<rparr>"

definition subscribeTwice :: "env \<Rightarrow> jsval \<Rightarrow> jsval \<Rightarrow> jsval \<Rightarrow> jsval \<Rightarrow> jsval \<Rightarrow> jsval" where
  "subscribeTwice env tid t u first second =
     (let t1 = storedAfter env t
                 (ops (subscribe (withTicket env tid t) (subscribeRequest tid u first)));
          t2 = storedAfter env t1
                 (ops (subscribe (withTicket env tid t1) (subscribeRequest tid u second)))
      in t2)"

section \<open>A concrete environment\<close>

text \<open>One ticket in the store, one user, collaborators that succeed: the handlers are run
  on it at concrete requests. Its \<open>sClean\<close> returns a string as it is, which is what
  \<^verbatim>\<open>_s.clean\<close> does to a string without whitespace; the tags of the sample requests have
  none.\<close>

definition sampleTicket :: jsval where
  "sampleTicket =
     Obj [(''_id'', Str ''t1''), (''status'', Num 0), (''group'', Str ''g1''),
          (''closedDate'', Null), (''updated'', Num 1000),
          (''comments'', Arr []), (''history'', Arr [createdHistoryItem (Str ''u1'')]),
          (''subscribers'', Arr [Str ''u1''])]"

definition sampleEnv :: env where
  "sampleEnv =
     \<lparr>ticketModel = (\<lambda>p. case p of Obj kvs \<Rightarrow> kvs @ [(''comments'', Arr [])] | _ \<Rightarrow> []),
      save = (\<lambda>d. (Null, d)),
      populate = (\<lambda>d p. (Null, d)),
      getTicketById = (\<lambda>i. (Null, if i = Str ''t1'' then sampleTicket else Null)),
      getTicketByUid = (\<lambda>i. (Null, if i = Str ''1'' then sampleTicket else Null)),
      getUserByAccessToken =
        (\<lambda>a. (Null, if a = Str ''token'' then Obj [(''_id'', Str ''u1'')] else Null)),
      docGetAttachment = (\<lambda>t a. Obj [(''path'', Str ''/uploads/a.png'')]),
      docRemoveAttachment = (\<lambda>t u a. (Null, t)),
      canThis = (\<lambda>r a. r = Str ''admin''),
      marked = (\<lambda>s. s),
      sClean = (\<lambda>v. case v of Str s \<Rightarrow> s | _ \<Rightarrow> []),
      newDate = 2000,
      dateNow = 2000,
      publicPath = (\<lambda>p. ''public'' @ p),
      existsSync = (\<lambda>p. True),
      unlinkFails = (\<lambda>p. False)\<rparr>"

definition sampleRequest :: request where
  "sampleRequest = \<lparr>params = [], headers = [], body = Undefined, user = Undefined\<rparr>"

text \<open>A create request with an issue and the tags \<^verbatim>\<open>a,b,c\<close>, and the document it leads to.\<close>

definition createRequest :: request where
  "createRequest =
     \<lparr>params = [], headers = [],
      body = Obj [(''subject'', Str ''Subject''), (''issue'', Str ''Printer is down''),
                  (''tags'', Str ''a,b,c'')],
      user = Obj [(''_id'', Str ''u1''), (''role'', Str ''admin'')]\<rparr>"

definition createdTicket :: jsval where
  "createdTicket =
     Obj [(''subject'', Str ''Subject''), (''issue'', Str ''Printer is down''),
          (''tags'', Arr [Str ''a'', Str ''b'', Str ''c'']), (''comments'', Arr []),
          (''owner'', Str ''u1''),
          (''history'', Arr [createdHistoryItem (Str ''u1'')]),
          (''subscribers'', Arr [Str ''u1''])]"

text \<open>The same store with every save failing, with the lookup by id failing, with the
  removal of an attachment failing; and the payload of the spec's example, which has no
  issue.\<close>

definition failingSave :: env where
  "failingSave = sampleEnv\<lparr>save := (\<lambda>d. (Obj [(''message'', Str ''write failed'')], Undefined))\<rparr>"

definition failingLookup :: env where
  "failingLookup =
     sampleEnv\<lparr>getTicketById := (\<lambda>i. (Obj [(''message'', Str ''no connection'')], Undefined))\<rparr>"

definition failingRemoval :: env where
  "failingRemoval =
     sampleEnv\<lparr>docRemoveAttachment := (\<lambda>t u a. (Obj [(''message'', Str ''no attachment'')], t))\<rparr>"

definition noIssueRequest :: request where
  "noIssueRequest =
     \<lparr>params = [], headers = [],
      body = Obj [(''subject'', Str ''Subject''), (''tags'', Str ''a,b,c'')],
      user = Obj [(''_id'', Str ''u1''), (''role'', Str ''admin'')]\<rparr>"

text \<open>Requests on the sample ticket: an update of the status alone, a comment, the
  removal of an attachment; a clock that reads 500 while the ticket was updated at 1000;
  a create request that names a tag twice.\<close>

definition updateRequest :: request where
  "updateRequest =
     \<lparr>params = [(''id'', Str ''t1'')], headers = [],
      body = Obj [(''status'', Num 2)],
      user = Obj [(''_id'', Str ''u1''), (''role'', Str ''admin'')]\<rparr>"

definition commentRequest :: request where
  "commentRequest =
     \<lparr>params = [], headers = [(''accesstoken'', Str ''token'')],
      body = Obj [(''_id'', Str ''t1''), (''ownerId'', Str ''u1''), (''comment'', Str ''On it'')],
      user = Undefined\<rparr>"

definition commentedTicket :: "int \<Rightarrow> int \<Rightarrow> jsval" where
  "commentedTicket date now =
     Obj [(''_id'', Str ''t1''), (''status'', Num 0), (''group'', Str ''g1''),
          (''closedDate'', Null), (''updated'', Num now),
          (''comments'', Arr [Obj [(''owner'', Str ''u1''), (''date'', Num date),
                                   (''comment'', Str ''On it'')]]),
          (''history'', Arr [createdHistoryItem (Str ''u1''), commentHistoryItem (Str ''u1'')]),
          (''subscribers'', Arr [Str ''u1''])]"

definition earlyClock :: env where
  "earlyClock = sampleEnv\<lparr>dateNow := 500\<rparr>"

definition attachmentRequest :: request where
  "attachmentRequest =
     \<lparr>params = [(''tid'', Str ''t1''), (''aid'', Str ''a1'')], headers = [], body = Undefined,
      user = Obj [(''_id'', Str ''u1''), (''role'', Str ''admin'')]\<rparr>"

definition guestNoTicketRequest :: request where
  "guestNoTicketRequest =
     \<lparr>params = [(''aid'', Str ''a1'')], headers = [], body = Undefined,
      user = Obj [(''_id'', Str ''u2''), (''role'', Str ''user'')]\<rparr>"

definition guestRequest :: request where
  "guestRequest =
     \<lparr>params = [(''tid'', Str ''t1''), (''aid'', Str ''a1'')], headers = [], body = Undefined,
      user = Obj [(''_id'', Str ''u2''), (''role'', Str ''user'')]\<rparr>"

definition dupTagsRequest :: request where
  "dupTagsRequest =
     \<lparr>params = [], headers = [],
      body = Obj [(''subject'', Str ''Subject''), (''issue'', Str ''Printer is down''),
                  (''tags'', Str ''a,a'')],
      user = Obj [(''_id'', Str ''u1''), (''role'', Str ''admin'')]\<rparr>"

definition dupTagsTicket :: jsval where
  "dupTagsTicket =
     Obj [(''subject'', Str ''Subject''), (''issue'', Str ''Printer is down''),
          (''tags'', Arr [Str ''a'', Str ''a'']), (''comments'', Arr []),
          (''owner'', Str ''u1''),
          (''history'', Arr [createdHistoryItem (Str ''u1'')]),
          (''subscribers'', Arr [Str ''u1''])]"

section \<open>Auxiliary facts\<close>

lemma map_of_upd: "map_of (upd kvs k v) = (map_of kvs)(k \<mapsto> v)"
  by (induction kvs) auto

lemma get_put: "get (put (Obj kvs) k v) k' = (if k' = k then v else get (Obj kvs) k')"
  by (simp add: map_of_upd)

lemma isDocument_put: "isDocument (put t k v) = isDocument t"
  by (cases t) simp_all

lemma get_put_doc:
  "isDocument t \<Longrightarrow> get (put t k v) k' = (if k' = k then v else get t k')"
  by (cases t) (simp_all add: map_of_upd)

subsection \<open>Splitting at commas\<close>

lemma split_comma_not_Nil: "split_comma s \<noteq> []"
  by (induction s) (auto split: list.splits)

lemma joinComma_Cons: "ps \<noteq> [] \<Longrightarrow> joinComma (p # ps) = p @ CHR '','' # joinComma ps"
  by (cases ps) simp_all

lemma joinComma_split_comma: "joinComma (split_comma s) = s"
proof (induction s)
  case Nil
  show ?case by simp
next
  case (Cons c cs)
  show ?case
  proof (cases "c = CHR '',''")
    case True
    with Cons show ?thesis by (simp add: joinComma_Cons split_comma_not_Nil)
  next
    case False
    obtain p ps where s: "split_comma cs = p # ps"
      using split_comma_not_Nil [of cs] by (cases "split_comma cs") auto
    with Cons have "joinComma (p # ps) = cs" by simp
    then have "joinComma ((c # p) # ps) = c # cs" by (cases ps) auto
    with False s show ?thesis by simp
  qed
qed

lemma split_comma_no_comma: "p \<in> set (split_comma s) \<Longrightarrow> CHR '','' \<notin> set p"
  by (induction s arbitrary: p) (auto split: if_splits list.splits)

lemma split_comma_plain: "CHR '','' \<notin> set p \<Longrightarrow> split_comma p = [p]"
  by (induction p) auto

lemma split_comma_append:
  "CHR '','' \<notin> set p \<Longrightarrow> split_comma (p @ CHR '','' # r) = p # split_comma r"
  by (induction p) auto

lemma split_comma_joinComma:
  "ps \<noteq> [] \<Longrightarrow> \<forall>p\<in>set ps. CHR '','' \<notin> set p \<Longrightarrow> split_comma (joinComma ps) = ps"
proof (induction ps)
  case Nil
  then show ?case by simp
next
  case (Cons p ps)
  show ?case
  proof (cases ps)
    case Nil
    with Cons.prems show ?thesis by (simp add: split_comma_plain)
  next
    case (Cons q qs)
    with Cons.IH Cons.prems have "split_comma (joinComma ps) = ps" by simp
    with Cons Cons.prems show ?thesis by (simp add: split_comma_append)
  qed
qed

subsection \<open>The paths of \<^verbatim>\<open>create\<close>\<close>

text \<open>Past the three checks (object body, user, string issue) the handler saves one
  document and answers by the outcome of the save.\<close>

lemma create_saved:
  assumes "isObject (body req)" "\<not> nullish (user req)"
      and "get (Obj (ticketModel env (body req))) ''issue'' = Str i"
  shows "create env req =
     (let uid = get (user req) ''_id'';
          d = put (put (put (put (put (Obj (ticketModel env (body req))) ''owner'' uid)
                ''issue'' (Str (marked env (nl2br i))))
                ''tags'' (Arr (map Str (createTags env (body req)))))
                ''history'' (Arr [createdHistoryItem uid]))
                ''subscribers'' (Arr [uid])
      in if truthy (fst (save env d))
         then respond [Save d] [] 400 (Obj [(''success'', Bool False), (''error'', fst (save env d))])
         else respond [Save d]
                [(''ticket:created'',
                  [Obj [(''socketId'', if isUndefined (get (body req) ''socketId'') then Str []
                                       else get (body req) ''socketId''),
                        (''ticket'', snd (save env d))]])]
                200 (Obj [(''success'', Bool True), (''ticket'', snd (save env d))]))"
  using assms
  by (simp add: create_def Let_def map_of_upd split: prod.splits)

lemma create_cases:
  "response (create env req) = Some (Response 200 b) \<Longrightarrow>
     isObject (body req) \<and> \<not> nullish (user req) \<and>
     (\<exists>i. get (Obj (ticketModel env (body req))) ''issue'' = Str i)"
  by (auto simp: create_def Let_def respond_def throw_def map_of_upd
           split: if_splits jsval.splits prod.splits)

lemma create_save_cases:
  "Save d \<in> set (ops (create env req)) \<Longrightarrow>
     isObject (body req) \<and> \<not> nullish (user req) \<and>
     (\<exists>i. get (Obj (ticketModel env (body req))) ''issue'' = Str i)"
  by (auto simp: create_def Let_def respond_def throw_def map_of_upd
           split: if_splits jsval.splits prod.splits)

lemma create_sample:
  "create sampleEnv createRequest =
     respond [Save createdTicket]
       [(''ticket:created'', [Obj [(''socketId'', Str []), (''ticket'', createdTicket)]])]
       200 (Obj [(''success'', Bool True), (''ticket'', createdTicket)])"
  by (simp add: create_def Let_def sampleEnv_def createRequest_def createdTicket_def
        createTags_def isUndefined_def nullish_def compact_def
        CR_def LF_def)

lemma create_failing:
  "create failingSave createRequest =
     respond [Save createdTicket] [] 400
       (Obj [(''success'', Bool False), (''error'', Obj [(''message'', Str ''write failed'')])])"
  by (simp add: create_def Let_def failingSave_def sampleEnv_def createRequest_def createdTicket_def
        createTags_def isUndefined_def nullish_def compact_def
        CR_def LF_def)

subsection \<open>The paths of \<^verbatim>\<open>update\<close>, \<^verbatim>\<open>postComment\<close> and \<^verbatim>\<open>subscribe\<close>\<close>

lemma update_saved:
  assumes "\<not> nullish (user req)" "param req ''id'' \<noteq> Undefined"
      and "\<not> truthy (fst (getTicketById env (param req ''id'')))"
      and "isDocument (snd (getTicketById env (param req ''id'')))"
      and "\<not> nullish (body req)"
  shows "ops (update env req) =
     [Lookup (param req ''id''),
      Save (let ticket = snd (getTicketById env (param req ''id''));
                ticket = (if get (body req) ''status'' \<noteq> Undefined
                          then put ticket ''status'' (get (body req) ''status'') else ticket);
                ticket = (if get (body req) ''group'' \<noteq> Undefined
                          then put ticket ''group'' (get (body req) ''group'') else ticket)
            in if get (body req) ''closedDate'' \<noteq> Undefined
               then put ticket ''closedDate'' (get (body req) ''closedDate'') else ticket)]"
proof (cases "getTicketById env (param req ''id'')")
  case (Pair err ticket)
  with assms show ?thesis
    by (simp add: update_def Let_def isUndefined_def isNull_def nullish_def respond_def
             split: prod.splits)
qed

lemma postComment_success:
  assumes "emitted (postComment env req) \<noteq> []"
  shows "\<exists>s cs hs.
       \<not> truthy (fst (getUserByAccessToken env (header req ''accesstoken'')))
     \<and> truthy (snd (getUserByAccessToken env (header req ''accesstoken'')))
     \<and> \<not> nullish (body req)
     \<and> get (body req) ''_id'' \<noteq> Undefined
     \<and> \<not> truthy (fst (getTicketById env (get (body req) ''_id'')))
     \<and> isDocument (snd (getTicketById env (get (body req) ''_id'')))
     \<and> get (body req) ''comment'' = Str s
     \<and> get (snd (getTicketById env (get (body req) ''_id''))) ''comments'' = Arr cs
     \<and> get (snd (getTicketById env (get (body req) ''_id''))) ''history'' = Arr hs"
proof (cases "getUserByAccessToken env (header req ''accesstoken'')")
  case u: (Pair e1 usr)
  show ?thesis
  proof (cases "getTicketById env (get (body req) ''_id'')")
    case t: (Pair e2 t)
    show ?thesis
    proof (cases "get (body req) ''comment''")
      case (Str s)
      with assms u t show ?thesis
        by (cases t)
           (auto simp: postComment_def Let_def respond_def throw_def silent_def isUndefined_def
                   map_of_upd
             split: if_splits jsval.splits prod.splits option.splits)
    qed (use assms u t in \<open>auto simp: postComment_def Let_def respond_def throw_def silent_def
           isUndefined_def split: if_splits prod.splits\<close>)
  qed
qed

lemma subscribe_stored:
  assumes "\<And>d. \<not> truthy (fst (save env d))" "isDocument t" "u \<noteq> Undefined" "flag \<noteq> Undefined"
  shows "storedAfter env t (ops (subscribe (withTicket env tid t) (subscribeRequest tid u flag)))
           = (if truthy flag then addSubscriber t u else removeSubscriber t u)"
proof -
  have s: "\<And>d e t'. save env d = (e, t') \<Longrightarrow> \<not> truthy e"
    using assms(1) by (metis fst_conv)
  show ?thesis
    using assms(2,3,4) s
    by (auto simp: subscribe_def Let_def withTicket_def subscribeRequest_def param_def nullish_def
          isUndefined_def respond_def split: prod.splits)
qed

lemma isDocument_addSubscriber: "isDocument (addSubscriber t u) = isDocument t"
  by (simp add: addSubscriber_def isDocument_put)

lemma isDocument_removeSubscriber: "isDocument (removeSubscriber t u) = isDocument t"
  by (simp add: removeSubscriber_def isDocument_put)

lemma subscribersOf_add:
  "isDocument t \<Longrightarrow> set (subscribersOf (addSubscriber t u)) = insert u (set (subscribersOf t))"
  by (auto simp: addSubscriber_def subscribersOf_def get_put_doc split: jsval.splits)

lemma subscribersOf_remove:
  "isDocument t \<Longrightarrow> set (subscribersOf (removeSubscriber t u)) = set (subscribersOf t) - {u}"
  by (auto simp: removeSubscriber_def subscribersOf_def get_put_doc split: jsval.splits)

text \<open>A 401 answer of \<^verbatim>\<open>removeAttachment\<close> comes from the permission check or follows a
  save that reported an error.\<close>

lemma removeAttachment_401:
  assumes "response (removeAttachment env req) = Some (Response 401 b)"
  shows "(param req ''tid'' \<noteq> Undefined \<and> param req ''aid'' \<noteq> Undefined \<and> \<not> nullish (user req)
          \<and> \<not> canThis env (get (user req) ''role'') ''tickets:removeAttachment'')
         \<or> (\<exists>d. Save d \<in> set (ops (removeAttachment env req)) \<and> truthy (fst (save env d)))"
proof (cases "getTicketById env (param req ''tid'')")
  case t: (Pair e t)
  show ?thesis
  proof (cases "docRemoveAttachment env t (get (user req) ''_id'') (param req ''aid'')")
    case r: (Pair e' t')
    show ?thesis
    proof (cases "save env t'")
      case s: (Pair e'' t'')
      from assms t r s show ?thesis
        by (auto simp: removeAttachment_def Let_def respond_def throw_def isUndefined_def
              isNull_def nullish_def split: if_splits jsval.splits)
    qed
  qed
qed

subsection \<open>The handlers on the sample requests\<close>

lemma postComment_sample:
  "postComment sampleEnv commentRequest =
     respond [UserLookup (Str ''token''), Lookup (Str ''t1''), Save (commentedTicket 2000 2000),
              Populate (commentedTicket 2000 2000) ''comments.owner'']
       [(''ticket:comment:added'',
         [commentedTicket 2000 2000,
          Obj [(''owner'', Str ''u1''), (''date'', Num 2000), (''comment'', Str ''On it'')]])]
       200 (Obj [(''ticket'', commentedTicket 2000 2000)])"
  by (simp add: postComment_def Let_def sampleEnv_def commentRequest_def commentedTicket_def
        sampleTicket_def header_def nullish_def isUndefined_def CR_def LF_def)

lemma postComment_early:
  "postComment earlyClock commentRequest =
     respond [UserLookup (Str ''token''), Lookup (Str ''t1''), Save (commentedTicket 2000 500),
              Populate (commentedTicket 2000 500) ''comments.owner'']
       [(''ticket:comment:added'',
         [commentedTicket 2000 500,
          Obj [(''owner'', Str ''u1''), (''date'', Num 2000), (''comment'', Str ''On it'')]])]
       200 (Obj [(''ticket'', commentedTicket 2000 500)])"
  by (simp add: postComment_def Let_def earlyClock_def sampleEnv_def commentRequest_def
        commentedTicket_def sampleTicket_def header_def nullish_def isUndefined_def CR_def LF_def)

lemma removeAttachment_failingSave:
  "removeAttachment failingSave attachmentRequest =
     respond [Lookup (Str ''t1''), RemoveAttachment sampleTicket (Str ''u1'') (Str ''a1''),
              Unlink ''public/uploads/a.png'', Save sampleTicket]
       [] 401 (Obj [(''error'', Str ''Invalid Request.'')])"
  by (simp add: removeAttachment_def Let_def failingSave_def sampleEnv_def attachmentRequest_def
        sampleTicket_def param_def isUndefined_def isNull_def)

lemma subscribe_on_off_sample:
  "subscribeTwice sampleEnv (Str ''t1'') sampleTicket (Str ''u1'') (Bool True) (Bool False)
     = put sampleTicket ''subscribers'' (Arr [])"
  by (simp add: subscribeTwice_def Let_def subscribe_def withTicket_def subscribeRequest_def
        sampleEnv_def sampleTicket_def param_def nullish_def isUndefined_def respond_def
        addSubscriber_def removeSubscriber_def subscribersOf_def)

lemma create_dupTags:
  "create sampleEnv dupTagsRequest =
     respond [Save dupTagsTicket]
       [(''ticket:created'', [Obj [(''socketId'', Str []), (''ticket'', dupTagsTicket)]])]
       200 (Obj [(''success'', Bool True), (''ticket'', dupTagsTicket)])"
  by (simp add: create_def Let_def sampleEnv_def dupTagsRequest_def dupTagsTicket_def
        createTags_def isUndefined_def nullish_def compact_def CR_def LF_def)

section \<open>Properties\<close>

subsection \<open>Creating a ticket\<close>

text \<open>
  C1. Whenever \<^verbatim>\<open>create\<close> answers with success (status 200), it has saved exactly one
  document, and that document, as handed to the store, has a history of exactly one entry
  (action \<^verbatim>\<open>ticket:created\<close>, owner the requester's id), exactly one subscriber, the
  requester's id, and the requester's id as its owner.
\<close>

theorem create_initial_history_subscriber:
  assumes "response (create env req) = Some (Response 200 b)"
  shows "\<exists>d. ops (create env req) = [Save d]
           \<and> get d ''history'' =
               Arr [Obj [(''action'', Str ''ticket:created''),
                         (''description'', Str ''Ticket was created.''),
                         (''owner'', get (user req) ''_id'')]]
           \<and> get d ''subscribers'' = Arr [get (user req) ''_id'']
           \<and> get d ''owner'' = get (user req) ''_id''
           \<and> \<not> truthy (fst (save env d))
           \<and> b = Obj [(''success'', Bool True), (''ticket'', snd (save env d))]"
proof -
  from create_cases [OF assms] obtain i where
    h: "isObject (body req)" "\<not> nullish (user req)"
       "get (Obj (ticketModel env (body req))) ''issue'' = Str i" by blast
  show ?thesis
    using assms unfolding create_saved [OF h]
    by (auto simp: Let_def respond_def map_of_upd createdHistoryItem_def split: if_splits)
qed

theorem create_initial_history_subscriber_witness:
  "response (create sampleEnv createRequest)
     = Some (Response 200 (Obj [(''success'', Bool True), (''ticket'', createdTicket)]))
   \<and> (\<exists>d. ops (create sampleEnv createRequest) = [Save d]
           \<and> get d ''history'' =
               Arr [Obj [(''action'', Str ''ticket:created''),
                         (''description'', Str ''Ticket was created.''),
                         (''owner'', Str ''u1'')]]
           \<and> get d ''subscribers'' = Arr [Str ''u1''])"
proof -
  have h: "response (create sampleEnv createRequest)
     = Some (Response 200 (Obj [(''success'', Bool True), (''ticket'', createdTicket)]))"
    by (simp add: create_sample respond_def)
  from create_initial_history_subscriber [OF h] show ?thesis
    using h by (auto simp: createRequest_def)
qed


text \<open>
  C6, amended. For a create request that reaches the save and whose body has \<^verbatim>\<open>tags\<close>,
  the saved ticket's tags are the non-empty pieces of \<^verbatim>\<open>_s.clean(tags)\<close> cut at its
  commas, in their order: the pieces, joined by commas, give the cleaned string back and
  none of them holds a comma; no tag is empty; a piece that occurs twice is kept twice.
  When the cleaned string is \<^verbatim>\<open>a,b,c\<close> the saved tags are \<^verbatim>\<open>["a","b","c"]\<close>. The saved
  ticket's comments are those of the fresh document (create adds none), so they are
  empty when the fresh document's are, and its history has length 1.
\<close>

theorem create_tags:
  assumes "isObject (body req)" "\<not> nullish (user req)"
      and "get (Obj (ticketModel env (body req))) ''issue'' = Str i"
      and "get (body req) ''tags'' \<noteq> Undefined"
  shows "\<exists>d h ts. ops (create env req) = [Save d]
           \<and> get d ''tags'' = Arr (map Str ts)
           \<and> [] \<notin> set ts
           \<and> (\<exists>ps. ps \<noteq> [] \<and> (\<forall>p\<in>set ps. CHR '','' \<notin> set p)
                    \<and> joinComma ps = sClean env (get (body req) ''tags''))
           \<and> (\<forall>ps. ps \<noteq> [] \<and> (\<forall>p\<in>set ps. CHR '','' \<notin> set p)
                    \<and> joinComma ps = sClean env (get (body req) ''tags'')
                  \<longrightarrow> ts = filter (\<lambda>p. p \<noteq> []) ps)
           \<and> (sClean env (get (body req) ''tags'') = ''a,b,c'' \<longrightarrow> ts = [''a'', ''b'', ''c''])
           \<and> get d ''comments'' = get (Obj (ticketModel env (body req))) ''comments''
           \<and> (get (Obj (ticketModel env (body req))) ''comments'' = Arr []
                \<longrightarrow> get d ''comments'' = Arr [])
           \<and> get d ''history'' = Arr [h]"
proof -
  define c where "c = sClean env (get (body req) ''tags'')"
  define ts where "ts = filter (\<lambda>p. p \<noteq> []) (split_comma c)"
  have t: "createTags env (body req) = ts"
    using assms(4) by (simp add: createTags_def isUndefined_def compact_def ts_def c_def)
  have e: "split_comma c \<noteq> [] \<and> (\<forall>p\<in>set (split_comma c). CHR '','' \<notin> set p)
             \<and> joinComma (split_comma c) = c"
    by (simp add: split_comma_not_Nil joinComma_split_comma split_comma_no_comma)
  have u: "ts = filter (\<lambda>p. p \<noteq> []) ps"
    if "ps \<noteq> [] \<and> (\<forall>p\<in>set ps. CHR '','' \<notin> set p) \<and> joinComma ps = c" for ps
  proof -
    from that have "split_comma c = ps" using split_comma_joinComma [of ps] by auto
    then show ?thesis by (simp add: ts_def)
  qed
  have abc: "ts = [''a'', ''b'', ''c'']" if "c = ''a,b,c''"
    using that by (simp add: ts_def)
  have n: "[] \<notin> set ts" by (simp add: ts_def)
  define d where "d = put (put (put (put (put (Obj (ticketModel env (body req))) ''owner''
                (get (user req) ''_id''))
                ''issue'' (Str (marked env (nl2br i))))
                ''tags'' (Arr (map Str ts)))
                ''history'' (Arr [createdHistoryItem (get (user req) ''_id'')]))
                ''subscribers'' (Arr [get (user req) ''_id''])"
  have o: "ops (create env req) = [Save d]"
    unfolding create_saved [OF assms(1,2,3)]
    by (simp add: Let_def respond_def t d_def)
  have g: "get d ''tags'' = Arr (map Str ts)"
    "get d ''comments'' = get (Obj (ticketModel env (body req))) ''comments''"
    "get d ''history'' = Arr [createdHistoryItem (get (user req) ''_id'')]"
    by (simp_all add: d_def map_of_upd)
  have ex: "\<exists>ps. ps \<noteq> [] \<and> (\<forall>p\<in>set ps. CHR '','' \<notin> set p)
                    \<and> joinComma ps = sClean env (get (body req) ''tags'')"
    using e unfolding c_def by blast
  have un: "\<forall>ps. ps \<noteq> [] \<and> (\<forall>p\<in>set ps. CHR '','' \<notin> set p)
                    \<and> joinComma ps = sClean env (get (body req) ''tags'')
                  \<longrightarrow> ts = filter (\<lambda>p. p \<noteq> []) ps"
    using u unfolding c_def by blast
  have ab: "sClean env (get (body req) ''tags'') = ''a,b,c'' \<longrightarrow> ts = [''a'', ''b'', ''c'']"
    using abc unfolding c_def by blast
  have cm: "get (Obj (ticketModel env (body req))) ''comments'' = Arr []
                \<longrightarrow> get d ''comments'' = Arr []"
    using g(2) by simp
  have all: "ops (create env req) = [Save d]
           \<and> get d ''tags'' = Arr (map Str ts)
           \<and> [] \<notin> set ts
           \<and> (\<exists>ps. ps \<noteq> [] \<and> (\<forall>p\<in>set ps. CHR '','' \<notin> set p)
                    \<and> joinComma ps = sClean env (get (body req) ''tags''))
           \<and> (\<forall>ps. ps \<noteq> [] \<and> (\<forall>p\<in>set ps. CHR '','' \<notin> set p)
                    \<and> joinComma ps = sClean env (get (body req) ''tags'')
                  \<longrightarrow> ts = filter (\<lambda>p. p \<noteq> []) ps)
           \<and> (sClean env (get (body req) ''tags'') = ''a,b,c'' \<longrightarrow> ts = [''a'', ''b'', ''c''])
           \<and> get d ''comments'' = get (Obj (ticketModel env (body req))) ''comments''
           \<and> (get (Obj (ticketModel env (body req))) ''comments'' = Arr []
                \<longrightarrow> get d ''comments'' = Arr [])
           \<and> get d ''history'' = Arr [createdHistoryItem (get (user req) ''_id'')]"
    using o g(1) n ex un ab g(2) cm g(3) by (intro conjI)
  show ?thesis
    apply (rule exI [of _ d])
    apply (rule exI [of _ "createdHistoryItem (get (user req) ''_id'')"])
    apply (rule exI [of _ ts])
    apply (rule all)
    done
qed

theorem create_tags_witness:
  "isObject (body createRequest) \<and> \<not> nullish (user createRequest)
   \<and> get (Obj (ticketModel sampleEnv (body createRequest))) ''issue'' = Str ''Printer is down''
   \<and> get (body createRequest) ''tags'' \<noteq> Undefined
   \<and> sClean sampleEnv (get (body createRequest) ''tags'') = ''a,b,c''
   \<and> joinComma [''a'', ''b'', ''c''] = ''a,b,c''
   \<and> get (Obj (ticketModel sampleEnv (body createRequest))) ''comments'' = Arr []
   \<and> (\<exists>d h. ops (create sampleEnv createRequest) = [Save d]
           \<and> get d ''tags'' = Arr [Str ''a'', Str ''b'', Str ''c'']
           \<and> get d ''comments'' = Arr []
           \<and> get d ''history'' = Arr [h])"
proof -
  have a: "isObject (body createRequest)" "\<not> nullish (user createRequest)"
    "get (Obj (ticketModel sampleEnv (body createRequest))) ''issue'' = Str ''Printer is down''"
    "get (body createRequest) ''tags'' \<noteq> Undefined"
    by (simp_all add: createRequest_def sampleEnv_def nullish_def)
  have c: "sClean sampleEnv (get (body createRequest) ''tags'') = ''a,b,c''"
    "joinComma [''a'', ''b'', ''c''] = ''a,b,c''"
    "get (Obj (ticketModel sampleEnv (body createRequest))) ''comments'' = Arr []"
    by (simp_all add: createRequest_def sampleEnv_def)
  from create_tags [OF a] obtain d h ts where
    r: "ops (create sampleEnv createRequest) = [Save d]"
       "get d ''tags'' = Arr (map Str ts)"
       "sClean sampleEnv (get (body createRequest) ''tags'') = ''a,b,c''
          \<longrightarrow> ts = [''a'', ''b'', ''c'']"
       "get (Obj (ticketModel sampleEnv (body createRequest))) ''comments'' = Arr []
          \<longrightarrow> get d ''comments'' = Arr []"
       "get d ''history'' = Arr [h]"
    by blast
  from r c have "ops (create sampleEnv createRequest) = [Save d]
           \<and> get d ''tags'' = Arr [Str ''a'', Str ''b'', Str ''c'']
           \<and> get d ''comments'' = Arr []
           \<and> get d ''history'' = Arr [h]"
    by simp
  then have "\<exists>d h. ops (create sampleEnv createRequest) = [Save d]
           \<and> get d ''tags'' = Arr [Str ''a'', Str ''b'', Str ''c'']
           \<and> get d ''comments'' = Arr []
           \<and> get d ''history'' = Arr [h]"
    by blast
  with a c show ?thesis by simp
qed

text \<open>The tags \<^verbatim>\<open>a,a\<close> are saved as \<^verbatim>\<open>["a","a"]\<close>: the array is not a set.\<close>

theorem create_tags_counterexample:
  "get (body dupTagsRequest) ''tags'' = Str ''a,a''
   \<and> sClean sampleEnv (Str ''a,a'') = ''a,a''
   \<and> ops (create sampleEnv dupTagsRequest) = [Save dupTagsTicket]
   \<and> get dupTagsTicket ''tags'' = Arr [Str ''a'', Str ''a'']
   \<and> \<not> distinct [Str ''a'', Str ''a'']"
  by (simp add: create_dupTags respond_def)
     (simp add: dupTagsRequest_def dupTagsTicket_def sampleEnv_def)

text \<open>
  C7. A create request whose body is not an object is answered with status 400 and
  \<^verbatim>\<open>{success: false, error: 'Invalid Post Data'}\<close>. When the handler reaches the save and
  the save reports an error, the answer is status 400 with \<^verbatim>\<open>{success: false, error: err}\<close>;
  when the save reports none, the answer (status 200) is \<^verbatim>\<open>{success: true, ticket: t}\<close>
  with the saved ticket \<^verbatim>\<open>t\<close> that the store called back with.
\<close>

theorem create_responses:
  "(\<not> isObject (body req) \<longrightarrow>
      response (create env req)
        = Some (Response 400 (Obj [(''success'', Bool False), (''error'', Str ''Invalid Post Data'')])))
   \<and> (\<forall>d. Save d \<in> set (ops (create env req)) \<and> truthy (fst (save env d)) \<longrightarrow>
      response (create env req)
        = Some (Response 400 (Obj [(''success'', Bool False), (''error'', fst (save env d))])))
   \<and> (\<forall>d. Save d \<in> set (ops (create env req)) \<and> \<not> truthy (fst (save env d)) \<longrightarrow>
      response (create env req)
        = Some (Response 200 (Obj [(''success'', Bool True), (''ticket'', snd (save env d))])))"
proof (intro conjI allI impI)
  assume "\<not> isObject (body req)"
  then show "response (create env req)
        = Some (Response 400 (Obj [(''success'', Bool False), (''error'', Str ''Invalid Post Data'')]))"
    by (simp add: create_def respond_def)
next
  fix d assume a: "Save d \<in> set (ops (create env req)) \<and> truthy (fst (save env d))"
  then have "isObject (body req) \<and> \<not> nullish (user req) \<and>
     (\<exists>i. get (Obj (ticketModel env (body req))) ''issue'' = Str i)"
    using create_save_cases by blast
  then obtain i where h: "isObject (body req)" "\<not> nullish (user req)"
       "get (Obj (ticketModel env (body req))) ''issue'' = Str i" by blast
  show "response (create env req)
        = Some (Response 400 (Obj [(''success'', Bool False), (''error'', fst (save env d))]))"
    using a unfolding create_saved [OF h]
    by (auto simp: Let_def respond_def split: if_splits)
next
  fix d assume a: "Save d \<in> set (ops (create env req)) \<and> \<not> truthy (fst (save env d))"
  then have "isObject (body req) \<and> \<not> nullish (user req) \<and>
     (\<exists>i. get (Obj (ticketModel env (body req))) ''issue'' = Str i)"
    using create_save_cases by blast
  then obtain i where h: "isObject (body req)" "\<not> nullish (user req)"
       "get (Obj (ticketModel env (body req))) ''issue'' = Str i" by blast
  show "response (create env req)
        = Some (Response 200 (Obj [(''success'', Bool True), (''ticket'', snd (save env d))]))"
    using a unfolding create_saved [OF h]
    by (auto simp: Let_def respond_def split: if_splits)
qed

theorem create_responses_witness:
  "\<not> isObject (body (sampleRequest\<lparr>body := Str ''text''\<rparr>))
   \<and> response (create sampleEnv (sampleRequest\<lparr>body := Str ''text''\<rparr>))
       = Some (Response 400 (Obj [(''success'', Bool False), (''error'', Str ''Invalid Post Data'')]))
   \<and> Save createdTicket \<in> set (ops (create failingSave createRequest))
   \<and> truthy (fst (save failingSave createdTicket))
   \<and> response (create failingSave createRequest)
       = Some (Response 400 (Obj [(''success'', Bool False),
                                  (''error'', Obj [(''message'', Str ''write failed'')])]))
   \<and> Save createdTicket \<in> set (ops (create sampleEnv createRequest))
   \<and> \<not> truthy (fst (save sampleEnv createdTicket))
   \<and> response (create sampleEnv createRequest)
       = Some (Response 200 (Obj [(''success'', Bool True), (''ticket'', createdTicket)]))"
proof -
  have a: "\<not> isObject (body (sampleRequest\<lparr>body := Str ''text''\<rparr>))"
    by simp
  have b: "Save createdTicket \<in> set (ops (create failingSave createRequest))
           \<and> truthy (fst (save failingSave createdTicket))"
    by (simp add: create_failing respond_def) (simp add: failingSave_def)
  have c: "Save createdTicket \<in> set (ops (create sampleEnv createRequest))
           \<and> \<not> truthy (fst (save sampleEnv createdTicket))"
    by (simp add: create_sample respond_def) (simp add: sampleEnv_def)
  have s1: "fst (save failingSave createdTicket) = Obj [(''message'', Str ''write failed'')]"
    by (simp add: failingSave_def)
  have s2: "snd (save sampleEnv createdTicket) = createdTicket"
    by (simp add: sampleEnv_def)
  note t = create_responses
  from t [of "sampleRequest\<lparr>body := Str ''text''\<rparr>" sampleEnv] a
       t [of createRequest failingSave] b t [of createRequest sampleEnv] c s1 s2
  show ?thesis by metis
qed

text \<open>
  C10. For an object payload without an \<^verbatim>\<open>issue\<close>, the fresh document carrying the
  payload's (absent) issue, \<^verbatim>\<open>create\<close> is ended by a TypeError: nothing is saved and no
  response is sent, in particular not the 400 error body. With a user on the request the
  exception is the one of \<^verbatim>\<open>tIssue.replace\<close> on \<^verbatim>\<open>undefined\<close> (line 164).
\<close>

theorem create_throws_without_issue:
  assumes "isObject (body req)"
      and "get (body req) ''issue'' = Undefined"
      and "get (Obj (ticketModel env (body req))) ''issue'' = get (body req) ''issue''"
  shows "create env req = \<lparr>response = None, ops = [], emitted = [], thrown = Some TypeError\<rparr>"
  using assms
  by (simp add: create_def Let_def throw_def map_of_upd)

theorem create_throws_without_issue_witness:
  "isObject (body noIssueRequest)
   \<and> get (body noIssueRequest) ''issue'' = Undefined
   \<and> get (Obj (ticketModel sampleEnv (body noIssueRequest))) ''issue''
       = get (body noIssueRequest) ''issue''
   \<and> create sampleEnv noIssueRequest
       = \<lparr>response = None, ops = [], emitted = [], thrown = Some TypeError\<rparr>"
proof -
  have a: "isObject (body noIssueRequest)"
    by (simp add: noIssueRequest_def)
  have b: "get (body noIssueRequest) ''issue'' = Undefined"
    by (simp add: noIssueRequest_def)
  have c: "get (Obj (ticketModel sampleEnv (body noIssueRequest))) ''issue''
             = get (body noIssueRequest) ''issue''"
    by (simp add: noIssueRequest_def sampleEnv_def)
  from create_throws_without_issue [OF a b c] a b c show ?thesis by simp
qed

subsection \<open>Lookup by uid\<close>

text \<open>
  C4. When the \<^verbatim>\<open>uid\<close> route parameter is missing, and when the store's lookup reports no
  error and no record (\<^verbatim>\<open>undefined\<close> or \<^verbatim>\<open>null\<close>), \<^verbatim>\<open>single\<close> answers with status 200 and the
  body \<^verbatim>\<open>{success: false, error: 'Invalid Ticket'}\<close>, not with a 4xx status.
\<close>

theorem single_invalid_ticket:
  "(param req ''uid'' = Undefined \<or>
    (\<not> truthy (fst (getTicketByUid env (param req ''uid''))) \<and>
     nullish (snd (getTicketByUid env (param req ''uid'')))))
   \<Longrightarrow> response (single env req)
         = Some (Response 200 (Obj [(''success'', Bool False), (''error'', Str ''Invalid Ticket'')]))
       \<and> \<not> (400 \<le> status (the (response (single env req))) \<and>
            status (the (response (single env req))) < 500)"
  by (auto simp: single_def Let_def respond_def invalidTicket_def isUndefined_def isNull_def
                 nullish_def split: prod.splits)

text \<open>The request without a uid, and the uid \<^verbatim>\<open>7\<close> that the sample store does not hold.\<close>

theorem single_invalid_ticket_witness:
  "param sampleRequest ''uid'' = Undefined
   \<and> response (single sampleEnv sampleRequest)
       = Some (Response 200 (Obj [(''success'', Bool False), (''error'', Str ''Invalid Ticket'')]))
   \<and> param (sampleRequest\<lparr>params := [(''uid'', Str ''7'')]\<rparr>) ''uid'' = Str ''7''
   \<and> \<not> truthy (fst (getTicketByUid sampleEnv (Str ''7'')))
   \<and> nullish (snd (getTicketByUid sampleEnv (Str ''7'')))
   \<and> response (single sampleEnv (sampleRequest\<lparr>params := [(''uid'', Str ''7'')]\<rparr>))
       = Some (Response 200 (Obj [(''success'', Bool False), (''error'', Str ''Invalid Ticket'')]))"
  using single_invalid_ticket [of sampleRequest sampleEnv]
        single_invalid_ticket [of "sampleRequest\<lparr>params := [(''uid'', Str ''7'')]\<rparr>" sampleEnv]
  by (simp add: param_def sampleRequest_def sampleEnv_def nullish_def)


subsection \<open>Updating a ticket\<close>

text \<open>
  C9. When \<^verbatim>\<open>req.user\<close> is \<^verbatim>\<open>undefined\<close> or \<^verbatim>\<open>null\<close>, \<^verbatim>\<open>update\<close> does nothing: no lookup
  and no save, no event, no exception, and no response of any kind.
\<close>

theorem update_without_user:
  "user req = Undefined \<or> user req = Null \<Longrightarrow>
     update env req = \<lparr>response = None, ops = [], emitted = [], thrown = None\<rparr>"
  by (auto simp: update_def silent_def isUndefined_def isNull_def)

theorem update_without_user_witness:
  "user sampleRequest = Undefined
   \<and> update sampleEnv sampleRequest = \<lparr>response = None, ops = [], emitted = [], thrown = None\<rparr>
   \<and> user (sampleRequest\<lparr>user := Null\<rparr>) = Null
   \<and> update sampleEnv (sampleRequest\<lparr>user := Null\<rparr>)
       = \<lparr>response = None, ops = [], emitted = [], thrown = None\<rparr>"
  using update_without_user [of sampleRequest sampleEnv]
        update_without_user [of "sampleRequest\<lparr>user := Null\<rparr>" sampleEnv]
  by (simp add: sampleRequest_def)


text \<open>
  C3. When \<^verbatim>\<open>update\<close> gets as far as the save (a user, an id, a lookup that finds a
  document, a body), the document it saves differs from the one found at most in
  \<^verbatim>\<open>status\<close>, \<^verbatim>\<open>group\<close> and \<^verbatim>\<open>closedDate\<close>, and each of the three has the request's value
  when the body has the field and the old value when it has not. In particular a body
  with \<^verbatim>\<open>status\<close> but without \<^verbatim>\<open>group\<close> and \<^verbatim>\<open>closedDate\<close> leaves these two as they were.
\<close>

theorem update_partial:
  assumes "\<not> nullish (user req)" "param req ''id'' \<noteq> Undefined"
      and "\<not> truthy (fst (getTicketById env (param req ''id'')))"
      and "isDocument (snd (getTicketById env (param req ''id'')))"
      and "\<not> nullish (body req)"
  shows "\<exists>d. ops (update env req) = [Lookup (param req ''id''), Save d]
     \<and> get d ''status'' = (if get (body req) ''status'' = Undefined
                           then get (snd (getTicketById env (param req ''id''))) ''status''
                           else get (body req) ''status'')
     \<and> get d ''group'' = (if get (body req) ''group'' = Undefined
                          then get (snd (getTicketById env (param req ''id''))) ''group''
                          else get (body req) ''group'')
     \<and> get d ''closedDate'' = (if get (body req) ''closedDate'' = Undefined
                               then get (snd (getTicketById env (param req ''id''))) ''closedDate''
                               else get (body req) ''closedDate'')
     \<and> (\<forall>k. k \<noteq> ''status'' \<and> k \<noteq> ''group'' \<and> k \<noteq> ''closedDate'' \<longrightarrow>
            get d k = get (snd (getTicketById env (param req ''id''))) k)
     \<and> (get (body req) ''status'' \<noteq> Undefined \<and> get (body req) ''group'' = Undefined
          \<and> get (body req) ''closedDate'' = Undefined \<longrightarrow>
            get d ''group'' = get (snd (getTicketById env (param req ''id''))) ''group''
          \<and> get d ''closedDate'' = get (snd (getTicketById env (param req ''id''))) ''closedDate'')"
  unfolding update_saved [OF assms]
  using assms(4)
  by (simp add: Let_def get_put_doc isDocument_put)

theorem update_partial_witness:
  "\<not> nullish (user updateRequest) \<and> param updateRequest ''id'' \<noteq> Undefined
   \<and> \<not> truthy (fst (getTicketById sampleEnv (param updateRequest ''id'')))
   \<and> isDocument (snd (getTicketById sampleEnv (param updateRequest ''id'')))
   \<and> \<not> nullish (body updateRequest)
   \<and> get (body updateRequest) ''status'' \<noteq> Undefined
   \<and> get (body updateRequest) ''group'' = Undefined
   \<and> get (body updateRequest) ''closedDate'' = Undefined
   \<and> (\<exists>d. ops (update sampleEnv updateRequest) = [Lookup (Str ''t1''), Save d]
         \<and> get d ''status'' = Num 2 \<and> get d ''group'' = Str ''g1'' \<and> get d ''closedDate'' = Null)"
proof -
  have a: "\<not> nullish (user updateRequest)" "param updateRequest ''id'' \<noteq> Undefined"
    "\<not> truthy (fst (getTicketById sampleEnv (param updateRequest ''id'')))"
    "isDocument (snd (getTicketById sampleEnv (param updateRequest ''id'')))"
    "\<not> nullish (body updateRequest)"
    by (simp_all add: updateRequest_def sampleEnv_def sampleTicket_def param_def nullish_def)
  have b: "get (body updateRequest) ''status'' = Num 2"
    "get (body updateRequest) ''group'' = Undefined"
    "get (body updateRequest) ''closedDate'' = Undefined"
    "param updateRequest ''id'' = Str ''t1''"
    "get (snd (getTicketById sampleEnv (Str ''t1''))) ''group'' = Str ''g1''"
    "get (snd (getTicketById sampleEnv (Str ''t1''))) ''closedDate'' = Null"
    by (simp_all add: updateRequest_def sampleEnv_def sampleTicket_def param_def)
  from update_partial [OF a] a b show ?thesis by auto
qed

subsection \<open>Posting a comment\<close>

text \<open>
  C2, amended. A \<^verbatim>\<open>postComment\<close> call that succeeds (it emits \<^verbatim>\<open>ticket:comment:added\<close>)
  saves one document. Its comments are those of the ticket found followed by the one new
  comment, its history is that of the ticket found followed by the one new entry, and
  its \<^verbatim>\<open>updated\<close> field is the reading of \<^verbatim>\<open>Date.now()\<close>. So \<^verbatim>\<open>updated\<close> is at least
  its previous value when the previous value is not later than the clock's reading; the
  handler does not compare the two.
\<close>

theorem postComment_appends:
  assumes "emitted (postComment env req) \<noteq> []"
  shows "\<exists>s cs hs d tt.
       get (body req) ''comment'' = Str s
     \<and> get (snd (getTicketById env (get (body req) ''_id''))) ''comments'' = Arr cs
     \<and> get (snd (getTicketById env (get (body req) ''_id''))) ''history'' = Arr hs
     \<and> ops (postComment env req)
         = [UserLookup (header req ''accesstoken''), Lookup (get (body req) ''_id''),
            Save d, Populate tt ''comments.owner'']
     \<and> get d ''comments'' =
           Arr (cs @ [Obj [(''owner'', get (body req) ''ownerId''), (''date'', Num (newDate env)),
                           (''comment'', Str (marked env (nl2br s)))]])
     \<and> get d ''history'' =
           Arr (hs @ [Obj [(''action'', Str ''ticket:comment:added''),
                           (''description'', Str ''Comment was added''),
                           (''owner'', get (snd (getUserByAccessToken env
                                                   (header req ''accesstoken''))) ''_id'')]])
     \<and> get d ''updated'' = Num (dateNow env)
     \<and> (\<forall>u. get (snd (getTicketById env (get (body req) ''_id''))) ''updated'' = Num u
              \<and> u \<le> dateNow env \<longrightarrow> (\<exists>u'. get d ''updated'' = Num u' \<and> u \<le> u'))"
proof -
  from postComment_success [OF assms] obtain s cs hs where
    h: "\<not> truthy (fst (getUserByAccessToken env (header req ''accesstoken'')))"
       "truthy (snd (getUserByAccessToken env (header req ''accesstoken'')))"
       "\<not> nullish (body req)"
       "get (body req) ''_id'' \<noteq> Undefined"
       "\<not> truthy (fst (getTicketById env (get (body req) ''_id'')))"
       "isDocument (snd (getTicketById env (get (body req) ''_id'')))"
       "get (body req) ''comment'' = Str s"
       "get (snd (getTicketById env (get (body req) ''_id''))) ''comments'' = Arr cs"
       "get (snd (getTicketById env (get (body req) ''_id''))) ''history'' = Arr hs"
    by blast
  obtain e1 usr where u: "getUserByAccessToken env (header req ''accesstoken'') = (e1, usr)"
    by (cases "getUserByAccessToken env (header req ''accesstoken'')")
  obtain e2 t where t: "getTicketById env (get (body req) ''_id'') = (e2, t)"
    by (cases "getTicketById env (get (body req) ''_id'')")
  define c where "c = Obj [(''owner'', get (body req) ''ownerId''), (''date'', Num (newDate env)),
                           (''comment'', Str (marked env (nl2br s)))]"
  define d where "d = put (put (put t ''updated'' (Num (dateNow env)))
                       ''comments'' (Arr (cs @ [c])))
                       ''history'' (Arr (hs @ [commentHistoryItem (get usr ''_id'')]))"
  have ops: "ops (postComment env req)
         = [UserLookup (header req ''accesstoken''), Lookup (get (body req) ''_id''),
            Save d, Populate (snd (save env d)) ''comments.owner'']"
    using assms h u t
    by (auto simp: postComment_def Let_def respond_def throw_def silent_def isUndefined_def
          get_put_doc isDocument_put d_def c_def
          split: if_splits prod.splits)
  have doc: "isDocument t" using h t by simp
  have "get d ''comments'' = Arr (cs @ [c])"
       "get d ''history'' = Arr (hs @ [commentHistoryItem (get usr ''_id'')])"
       "get d ''updated'' = Num (dateNow env)"
    using doc by (simp_all add: d_def get_put_doc isDocument_put)
  with ops h u t show ?thesis
    by (simp add: c_def commentHistoryItem_def)
qed

theorem postComment_appends_witness:
  "emitted (postComment sampleEnv commentRequest) \<noteq> []
   \<and> (\<exists>d tt. ops (postComment sampleEnv commentRequest)
                = [UserLookup (Str ''token''), Lookup (Str ''t1''), Save d,
                   Populate tt ''comments.owner'']
         \<and> get d ''comments''
             = Arr [Obj [(''owner'', Str ''u1''), (''date'', Num 2000), (''comment'', Str ''On it'')]]
         \<and> get d ''history''
             = Arr [createdHistoryItem (Str ''u1''), commentHistoryItem (Str ''u1'')]
         \<and> get (snd (getTicketById sampleEnv (Str ''t1''))) ''updated'' = Num 1000
         \<and> (1000::int) \<le> dateNow sampleEnv
         \<and> get d ''updated'' = Num 2000)"
proof -
  have h: "emitted (postComment sampleEnv commentRequest) \<noteq> []"
    by (simp add: postComment_sample respond_def)
  have e: "header commentRequest ''accesstoken'' = Str ''token''"
    "get (body commentRequest) ''_id'' = Str ''t1''"
    "get (body commentRequest) ''ownerId'' = Str ''u1''"
    "get (body commentRequest) ''comment'' = Str ''On it''"
    by (simp_all add: commentRequest_def header_def)
  have f: "snd (getTicketById sampleEnv (Str ''t1'')) = sampleTicket"
    "snd (getUserByAccessToken sampleEnv (Str ''token'')) = Obj [(''_id'', Str ''u1'')]"
    "newDate sampleEnv = 2000" "dateNow sampleEnv = 2000" "marked sampleEnv = (\<lambda>s. s)"
    by (simp_all add: sampleEnv_def)
  have g: "get sampleTicket ''comments'' = Arr []"
    "get sampleTicket ''history'' = Arr [createdHistoryItem (Str ''u1'')]"
    "nl2br ''On it'' = ''On it''"
    by (simp_all add: sampleTicket_def CR_def LF_def)
  from postComment_appends [OF h] obtain s cs hs d tt where
    r: "get (body commentRequest) ''comment'' = Str s"
       "get (snd (getTicketById sampleEnv (get (body commentRequest) ''_id''))) ''comments'' = Arr cs"
       "get (snd (getTicketById sampleEnv (get (body commentRequest) ''_id''))) ''history'' = Arr hs"
       "ops (postComment sampleEnv commentRequest)
         = [UserLookup (header commentRequest ''accesstoken''),
            Lookup (get (body commentRequest) ''_id''), Save d, Populate tt ''comments.owner'']"
       "get d ''comments'' =
           Arr (cs @ [Obj [(''owner'', get (body commentRequest) ''ownerId''),
                           (''date'', Num (newDate sampleEnv)),
                           (''comment'', Str (marked sampleEnv (nl2br s)))]])"
       "get d ''history'' =
           Arr (hs @ [Obj [(''action'', Str ''ticket:comment:added''),
                           (''description'', Str ''Comment was added''),
                           (''owner'', get (snd (getUserByAccessToken sampleEnv
                                      (header commentRequest ''accesstoken''))) ''_id'')]])"
       "get d ''updated'' = Num (dateNow sampleEnv)"
    by blast
  from r(1) have s: "s = ''On it''" by (simp add: e)
  from r(2) have cs: "cs = []" by (simp add: e f g)
  from r(3) have hs: "hs = [createdHistoryItem (Str ''u1'')]" by (simp add: e f g)
  have "ops (postComment sampleEnv commentRequest)
                = [UserLookup (Str ''token''), Lookup (Str ''t1''), Save d,
                   Populate tt ''comments.owner'']
         \<and> get d ''comments''
             = Arr [Obj [(''owner'', Str ''u1''), (''date'', Num 2000), (''comment'', Str ''On it'')]]
         \<and> get d ''history''
             = Arr [createdHistoryItem (Str ''u1''), commentHistoryItem (Str ''u1'')]
         \<and> get (snd (getTicketById sampleEnv (Str ''t1''))) ''updated'' = Num 1000
         \<and> (1000::int) \<le> dateNow sampleEnv
         \<and> get d ''updated'' = Num 2000"
    using r(4-7) by (simp add: s cs hs e f g commentHistoryItem_def CR_def LF_def)
       (simp add: sampleTicket_def)
  then show ?thesis using h by blast
qed

text \<open>
  The clock reads 500 and the stored ticket was updated at 1000: the call succeeds and
  the saved ticket has \<^verbatim>\<open>updated = 500\<close>, earlier than before.
\<close>

theorem postComment_updated_counterexample:
  "emitted (postComment earlyClock commentRequest) \<noteq> []
   \<and> getTicketById earlyClock (get (body commentRequest) ''_id'') = (Null, sampleTicket)
   \<and> get sampleTicket ''updated'' = Num 1000
   \<and> ops (postComment earlyClock commentRequest)
       = [UserLookup (Str ''token''), Lookup (Str ''t1''), Save (commentedTicket 2000 500),
          Populate (commentedTicket 2000 500) ''comments.owner'']
   \<and> get (commentedTicket 2000 500) ''updated'' = Num 500
   \<and> \<not> (1000 \<le> (500::int))"
  by (simp add: postComment_early respond_def)
     (simp add: earlyClock_def sampleEnv_def commentRequest_def sampleTicket_def commentedTicket_def)

subsection \<open>Removing an attachment\<close>

text \<open>
  C5, amended. \<^verbatim>\<open>removeAttachment\<close> answers 400 when either id is missing, and 400 when
  both are there and \<^verbatim>\<open>req.user\<close> is undefined. Otherwise, with a user that is not
  \<^verbatim>\<open>null\<close>, it answers 401 when the user's role lacks \<^verbatim>\<open>tickets:removeAttachment\<close>, and
  that before any store operation. With the permission, it answers 400 when the ticket
  lookup reports an error, and 400 when the lookup found a document and the removal
  reports an error. It answers 401 without any store operation exactly when both ids and
  a user that is not \<^verbatim>\<open>null\<close> are there and the role lacks the permission; any other
  401 answer follows a save that reported an error. (Nothing is stated here about what
  a failing save is answered with.)
\<close>

theorem removeAttachment_status:
  "(param req ''tid'' = Undefined \<or> param req ''aid'' = Undefined \<longrightarrow>
      removeAttachment env req = respond [] [] 400 (Obj [(''error'', Str ''Invalid Attachment'')]))
   \<and> (param req ''tid'' \<noteq> Undefined \<and> param req ''aid'' \<noteq> Undefined \<and> user req = Undefined \<longrightarrow>
      removeAttachment env req = respond [] [] 400 (Obj [(''error'', Str ''Invalid User Auth.'')]))
   \<and> (param req ''tid'' \<noteq> Undefined \<and> param req ''aid'' \<noteq> Undefined \<and> \<not> nullish (user req)
        \<and> \<not> canThis env (get (user req) ''role'') ''tickets:removeAttachment'' \<longrightarrow>
      removeAttachment env req = respond [] [] 401 (Obj [(''error'', Str ''Invalid Permissions'')]))
   \<and> (param req ''tid'' \<noteq> Undefined \<and> param req ''aid'' \<noteq> Undefined \<and> \<not> nullish (user req)
        \<and> canThis env (get (user req) ''role'') ''tickets:removeAttachment''
        \<and> truthy (fst (getTicketById env (param req ''tid''))) \<longrightarrow>
      removeAttachment env req
        = respond [Lookup (param req ''tid'')] [] 400 (Str ''Invalid Ticket Id''))
   \<and> (param req ''tid'' \<noteq> Undefined \<and> param req ''aid'' \<noteq> Undefined \<and> \<not> nullish (user req)
        \<and> canThis env (get (user req) ''role'') ''tickets:removeAttachment''
        \<and> \<not> truthy (fst (getTicketById env (param req ''tid'')))
        \<and> isDocument (snd (getTicketById env (param req ''tid'')))
        \<and> truthy (fst (docRemoveAttachment env (snd (getTicketById env (param req ''tid'')))
                          (get (user req) ''_id'') (param req ''aid''))) \<longrightarrow>
      removeAttachment env req
        = respond [Lookup (param req ''tid''),
                   RemoveAttachment (snd (getTicketById env (param req ''tid'')))
                     (get (user req) ''_id'') (param req ''aid'')]
            [] 400 (Obj [(''error'', Str ''Invalid Request.'')]))
   \<and> ((ops (removeAttachment env req) = []
         \<and> (\<exists>b. response (removeAttachment env req) = Some (Response 401 b)))
        = (param req ''tid'' \<noteq> Undefined \<and> param req ''aid'' \<noteq> Undefined
           \<and> \<not> nullish (user req)
           \<and> \<not> canThis env (get (user req) ''role'') ''tickets:removeAttachment''))
   \<and> (\<forall>b. response (removeAttachment env req) = Some (Response 401 b) \<longrightarrow>
          (param req ''tid'' \<noteq> Undefined \<and> param req ''aid'' \<noteq> Undefined
           \<and> \<not> nullish (user req)
           \<and> \<not> canThis env (get (user req) ''role'') ''tickets:removeAttachment'')
          \<or> (\<exists>d. Save d \<in> set (ops (removeAttachment env req))
                   \<and> truthy (fst (save env d))))"
proof (intro conjI impI allI)
  assume "param req ''tid'' = Undefined \<or> param req ''aid'' = Undefined"
  then show "removeAttachment env req = respond [] [] 400 (Obj [(''error'', Str ''Invalid Attachment'')])"
    by (auto simp: removeAttachment_def Let_def isUndefined_def)
next
  assume "param req ''tid'' \<noteq> Undefined \<and> param req ''aid'' \<noteq> Undefined \<and> user req = Undefined"
  then show "removeAttachment env req = respond [] [] 400 (Obj [(''error'', Str ''Invalid User Auth.'')])"
    by (simp add: removeAttachment_def Let_def isUndefined_def)
next
  assume "param req ''tid'' \<noteq> Undefined \<and> param req ''aid'' \<noteq> Undefined \<and> \<not> nullish (user req)
        \<and> \<not> canThis env (get (user req) ''role'') ''tickets:removeAttachment''"
  then show "removeAttachment env req = respond [] [] 401 (Obj [(''error'', Str ''Invalid Permissions'')])"
    by (simp add: removeAttachment_def Let_def isUndefined_def isNull_def nullish_def)
next
  assume "param req ''tid'' \<noteq> Undefined \<and> param req ''aid'' \<noteq> Undefined \<and> \<not> nullish (user req)
        \<and> canThis env (get (user req) ''role'') ''tickets:removeAttachment''
        \<and> truthy (fst (getTicketById env (param req ''tid'')))"
  then show "removeAttachment env req
        = respond [Lookup (param req ''tid'')] [] 400 (Str ''Invalid Ticket Id'')"
    by (cases "getTicketById env (param req ''tid'')")
       (simp add: removeAttachment_def Let_def isUndefined_def isNull_def nullish_def)
next
  assume a: "param req ''tid'' \<noteq> Undefined \<and> param req ''aid'' \<noteq> Undefined \<and> \<not> nullish (user req)
        \<and> canThis env (get (user req) ''role'') ''tickets:removeAttachment''
        \<and> \<not> truthy (fst (getTicketById env (param req ''tid'')))
        \<and> isDocument (snd (getTicketById env (param req ''tid'')))
        \<and> truthy (fst (docRemoveAttachment env (snd (getTicketById env (param req ''tid'')))
                          (get (user req) ''_id'') (param req ''aid'')))"
  obtain e t where t: "getTicketById env (param req ''tid'') = (e, t)"
    by (cases "getTicketById env (param req ''tid'')")
  obtain e' t' where r: "docRemoveAttachment env t (get (user req) ''_id'') (param req ''aid'') = (e', t')"
    by (cases "docRemoveAttachment env t (get (user req) ''_id'') (param req ''aid'')")
  from a t r show "removeAttachment env req
        = respond [Lookup (param req ''tid''),
                   RemoveAttachment (snd (getTicketById env (param req ''tid'')))
                     (get (user req) ''_id'') (param req ''aid'')]
            [] 400 (Obj [(''error'', Str ''Invalid Request.'')])"
    by (simp add: removeAttachment_def Let_def isUndefined_def isNull_def nullish_def)
next
  show "(ops (removeAttachment env req) = []
         \<and> (\<exists>b. response (removeAttachment env req) = Some (Response 401 b)))
        = (param req ''tid'' \<noteq> Undefined \<and> param req ''aid'' \<noteq> Undefined
           \<and> \<not> nullish (user req)
           \<and> \<not> canThis env (get (user req) ''role'') ''tickets:removeAttachment'')"
  proof
    assume l: "ops (removeAttachment env req) = []
         \<and> (\<exists>b. response (removeAttachment env req) = Some (Response 401 b))"
    then obtain b where "response (removeAttachment env req) = Some (Response 401 b)"
      by blast
    from removeAttachment_401 [OF this] l
    show "param req ''tid'' \<noteq> Undefined \<and> param req ''aid'' \<noteq> Undefined
           \<and> \<not> nullish (user req)
           \<and> \<not> canThis env (get (user req) ''role'') ''tickets:removeAttachment''"
      by auto
  next
    assume "param req ''tid'' \<noteq> Undefined \<and> param req ''aid'' \<noteq> Undefined
           \<and> \<not> nullish (user req)
           \<and> \<not> canThis env (get (user req) ''role'') ''tickets:removeAttachment''"
    then have "removeAttachment env req
                 = respond [] [] 401 (Obj [(''error'', Str ''Invalid Permissions'')])"
      by (simp add: removeAttachment_def Let_def isUndefined_def isNull_def nullish_def)
    then show "ops (removeAttachment env req) = []
         \<and> (\<exists>b. response (removeAttachment env req) = Some (Response 401 b))"
      by (simp add: respond_def)
  qed
next
  fix b assume "response (removeAttachment env req) = Some (Response 401 b)"
  then show "(param req ''tid'' \<noteq> Undefined \<and> param req ''aid'' \<noteq> Undefined
           \<and> \<not> nullish (user req)
           \<and> \<not> canThis env (get (user req) ''role'') ''tickets:removeAttachment'')
          \<or> (\<exists>d. Save d \<in> set (ops (removeAttachment env req))
                   \<and> truthy (fst (save env d)))"
    by (rule removeAttachment_401)
qed

theorem removeAttachment_status_witness:
  "param guestNoTicketRequest ''tid'' = Undefined
   \<and> removeAttachment sampleEnv guestNoTicketRequest
       = respond [] [] 400 (Obj [(''error'', Str ''Invalid Attachment'')])
   \<and> param attachmentRequest ''tid'' \<noteq> Undefined \<and> param attachmentRequest ''aid'' \<noteq> Undefined
   \<and> removeAttachment sampleEnv (attachmentRequest\<lparr>user := Undefined\<rparr>)
       = respond [] [] 400 (Obj [(''error'', Str ''Invalid User Auth.'')])
   \<and> \<not> nullish (user guestRequest)
   \<and> \<not> canThis sampleEnv (get (user guestRequest) ''role'') ''tickets:removeAttachment''
   \<and> removeAttachment sampleEnv guestRequest
       = respond [] [] 401 (Obj [(''error'', Str ''Invalid Permissions'')])
   \<and> \<not> nullish (user attachmentRequest)
   \<and> canThis failingLookup (get (user attachmentRequest) ''role'') ''tickets:removeAttachment''
   \<and> truthy (fst (getTicketById failingLookup (Str ''t1'')))
   \<and> removeAttachment failingLookup attachmentRequest
       = respond [Lookup (Str ''t1'')] [] 400 (Str ''Invalid Ticket Id'')
   \<and> \<not> truthy (fst (getTicketById failingRemoval (Str ''t1'')))
   \<and> isDocument (snd (getTicketById failingRemoval (Str ''t1'')))
   \<and> truthy (fst (docRemoveAttachment failingRemoval sampleTicket (Str ''u1'') (Str ''a1'')))
   \<and> removeAttachment failingRemoval attachmentRequest
       = respond [Lookup (Str ''t1''), RemoveAttachment sampleTicket (Str ''u1'') (Str ''a1'')]
           [] 400 (Obj [(''error'', Str ''Invalid Request.'')])
   \<and> ops (removeAttachment sampleEnv guestRequest) = []
   \<and> response (removeAttachment sampleEnv guestRequest)
       = Some (Response 401 (Obj [(''error'', Str ''Invalid Permissions'')]))
   \<and> response (removeAttachment failingSave attachmentRequest)
       = Some (Response 401 (Obj [(''error'', Str ''Invalid Request.'')]))
   \<and> Save sampleTicket \<in> set (ops (removeAttachment failingSave attachmentRequest))
   \<and> truthy (fst (save failingSave sampleTicket))
   \<and> canThis failingSave (get (user attachmentRequest) ''role'') ''tickets:removeAttachment''"
proof -
  have a: "param guestNoTicketRequest ''tid'' = Undefined"
    by (simp add: guestNoTicketRequest_def param_def)
  have p: "param attachmentRequest ''tid'' = Str ''t1''" "param attachmentRequest ''aid'' = Str ''a1''"
    "param (attachmentRequest\<lparr>user := Undefined\<rparr>) ''tid'' = Str ''t1''"
    "param (attachmentRequest\<lparr>user := Undefined\<rparr>) ''aid'' = Str ''a1''"
    "param guestRequest ''tid'' = Str ''t1''" "param guestRequest ''aid'' = Str ''a1''"
    "get (user attachmentRequest) ''_id'' = Str ''u1''"
    by (simp_all add: attachmentRequest_def guestRequest_def param_def)
  have b: "\<not> nullish (user guestRequest)"
    "\<not> canThis sampleEnv (get (user guestRequest) ''role'') ''tickets:removeAttachment''"
    by (simp_all add: guestRequest_def nullish_def sampleEnv_def)
  have c: "\<not> nullish (user attachmentRequest)"
    "canThis failingLookup (get (user attachmentRequest) ''role'') ''tickets:removeAttachment''"
    "canThis failingRemoval (get (user attachmentRequest) ''role'') ''tickets:removeAttachment''"
    "truthy (fst (getTicketById failingLookup (Str ''t1'')))"
    by (simp_all add: attachmentRequest_def nullish_def failingLookup_def failingRemoval_def
          sampleEnv_def)
  have d: "\<not> truthy (fst (getTicketById failingRemoval (Str ''t1'')))"
    "snd (getTicketById failingRemoval (Str ''t1'')) = sampleTicket"
    "isDocument sampleTicket"
    "truthy (fst (docRemoveAttachment failingRemoval sampleTicket (Str ''u1'') (Str ''a1'')))"
    by (simp_all add: failingRemoval_def sampleEnv_def sampleTicket_def)
  from removeAttachment_status [of guestNoTicketRequest sampleEnv] a
  have r1: "removeAttachment sampleEnv guestNoTicketRequest
       = respond [] [] 400 (Obj [(''error'', Str ''Invalid Attachment'')])"
    by simp
  from removeAttachment_status [of "attachmentRequest\<lparr>user := Undefined\<rparr>" sampleEnv]
  have r2: "removeAttachment sampleEnv (attachmentRequest\<lparr>user := Undefined\<rparr>)
       = respond [] [] 400 (Obj [(''error'', Str ''Invalid User Auth.'')])"
    by (simp add: p)
  from removeAttachment_status [of guestRequest sampleEnv] b
  have r3: "removeAttachment sampleEnv guestRequest
       = respond [] [] 401 (Obj [(''error'', Str ''Invalid Permissions'')])"
    by (simp add: p)
  from removeAttachment_status [of attachmentRequest failingLookup] c
  have r4: "removeAttachment failingLookup attachmentRequest
       = respond [Lookup (Str ''t1'')] [] 400 (Str ''Invalid Ticket Id'')"
    by (simp add: p)
  from removeAttachment_status [of attachmentRequest failingRemoval] c d
  have r5: "removeAttachment failingRemoval attachmentRequest
       = respond [Lookup (Str ''t1''), RemoveAttachment sampleTicket (Str ''u1'') (Str ''a1'')]
           [] 400 (Obj [(''error'', Str ''Invalid Request.'')])"
    by (simp add: p)
  from removeAttachment_status [of guestRequest sampleEnv] b
  have r6: "ops (removeAttachment sampleEnv guestRequest) = []
            \<and> (\<exists>b. response (removeAttachment sampleEnv guestRequest) = Some (Response 401 b))"
    by (simp add: p respond_def)
  have r7: "response (removeAttachment sampleEnv guestRequest)
       = Some (Response 401 (Obj [(''error'', Str ''Invalid Permissions'')]))"
    by (simp add: r3 respond_def)
  have f: "response (removeAttachment failingSave attachmentRequest)
       = Some (Response 401 (Obj [(''error'', Str ''Invalid Request.'')]))"
    "Save sampleTicket \<in> set (ops (removeAttachment failingSave attachmentRequest))"
    by (simp_all add: removeAttachment_failingSave respond_def)
  have f': "truthy (fst (save failingSave sampleTicket))"
    "canThis failingSave (get (user attachmentRequest) ''role'') ''tickets:removeAttachment''"
    by (simp_all add: failingSave_def sampleEnv_def attachmentRequest_def)
  from removeAttachment_status [of attachmentRequest failingSave] f(1)
  have r8: "(param attachmentRequest ''tid'' \<noteq> Undefined
             \<and> param attachmentRequest ''aid'' \<noteq> Undefined
             \<and> \<not> nullish (user attachmentRequest)
             \<and> \<not> canThis failingSave (get (user attachmentRequest) ''role'')
                    ''tickets:removeAttachment'')
          \<or> (\<exists>d. Save d \<in> set (ops (removeAttachment failingSave attachmentRequest))
                   \<and> truthy (fst (save failingSave d)))"
    by simp
  from a p b c d r1 r2 r3 r4 r5 r6 r7 r8 f f' show ?thesis by simp
qed

text \<open>
  Two requests against the claim as the spec states it. A requester without the
  permission and without a ticket id gets 400, not 401: the ids are checked first. A
  requester with the permission whose save fails gets 401 (line 448), not 400.
\<close>

theorem removeAttachment_status_counterexample:
  "\<not> canThis sampleEnv (get (user guestNoTicketRequest) ''role'') ''tickets:removeAttachment''
   \<and> response (removeAttachment sampleEnv guestNoTicketRequest)
       = Some (Response 400 (Obj [(''error'', Str ''Invalid Attachment'')]))
   \<and> canThis failingSave (get (user attachmentRequest) ''role'') ''tickets:removeAttachment''
   \<and> truthy (fst (save failingSave sampleTicket))
   \<and> ops (removeAttachment failingSave attachmentRequest)
       = [Lookup (Str ''t1''), RemoveAttachment sampleTicket (Str ''u1'') (Str ''a1''),
          Unlink ''public/uploads/a.png'', Save sampleTicket]
   \<and> response (removeAttachment failingSave attachmentRequest)
       = Some (Response 401 (Obj [(''error'', Str ''Invalid Request.'')]))"
  by (simp add: removeAttachment_failingSave respond_def)
     (simp add: removeAttachment_def Let_def failingSave_def sampleEnv_def guestNoTicketRequest_def
        attachmentRequest_def param_def isUndefined_def respond_def)

subsection \<open>Subscribing\<close>

text \<open>
  C8, amended. With saves that succeed, subscribing and then unsubscribing a user leaves
  the ticket with its former subscribers except that user; unsubscribing and then
  subscribing leaves it with its former subscribers and that user. So the membership
  returns to what it was when the user was not a subscriber before (subscribe first), or
  was one before (unsubscribe first).
\<close>

theorem subscribe_twice:
  assumes "\<And>d. \<not> truthy (fst (save env d))" "isDocument t" "u \<noteq> Undefined"
  shows "set (subscribersOf (subscribeTwice env tid t u (Bool True) (Bool False)))
           = set (subscribersOf t) - {u}
       \<and> set (subscribersOf (subscribeTwice env tid t u (Bool False) (Bool True)))
           = insert u (set (subscribersOf t))
       \<and> (u \<notin> set (subscribersOf t) \<longrightarrow>
            set (subscribersOf (subscribeTwice env tid t u (Bool True) (Bool False)))
              = set (subscribersOf t))
       \<and> (u \<in> set (subscribersOf t) \<longrightarrow>
            set (subscribersOf (subscribeTwice env tid t u (Bool False) (Bool True)))
              = set (subscribersOf t))"
proof -
  have a: "subscribeTwice env tid t u (Bool True) (Bool False)
             = removeSubscriber (addSubscriber t u) u"
    using assms
    by (simp add: subscribeTwice_def Let_def subscribe_stored isDocument_addSubscriber)
  have b: "subscribeTwice env tid t u (Bool False) (Bool True)
             = addSubscriber (removeSubscriber t u) u"
    using assms
    by (simp add: subscribeTwice_def Let_def subscribe_stored isDocument_removeSubscriber)
  show ?thesis
    using assms(2)
    by (auto simp: a b subscribersOf_add subscribersOf_remove isDocument_addSubscriber
          isDocument_removeSubscriber)
qed

theorem subscribe_twice_witness:
  "(\<forall>d. \<not> truthy (fst (save sampleEnv d))) \<and> isDocument sampleTicket
   \<and> Str ''u2'' \<notin> set (subscribersOf sampleTicket)
   \<and> set (subscribersOf (subscribeTwice sampleEnv (Str ''t1'') sampleTicket (Str ''u2'')
                            (Bool True) (Bool False)))
       = set (subscribersOf sampleTicket)
   \<and> Str ''u1'' \<in> set (subscribersOf sampleTicket)
   \<and> set (subscribersOf (subscribeTwice sampleEnv (Str ''t1'') sampleTicket (Str ''u1'')
                            (Bool False) (Bool True)))
       = set (subscribersOf sampleTicket)"
proof -
  have s: "\<And>d. \<not> truthy (fst (save sampleEnv d))"
    by (simp add: sampleEnv_def)
  have d: "isDocument sampleTicket"
    by (simp add: sampleTicket_def)
  have m: "Str ''u2'' \<notin> set (subscribersOf sampleTicket)"
          "Str ''u1'' \<in> set (subscribersOf sampleTicket)"
    by (simp_all add: subscribersOf_def sampleTicket_def)
  from subscribe_twice [of sampleEnv sampleTicket "Str ''u2''" "Str ''t1''", OF s d]
       subscribe_twice [of sampleEnv sampleTicket "Str ''u1''" "Str ''t1''", OF s d] s d m
  show ?thesis by (simp add: insert_absorb)
qed

text \<open>
  The sample ticket has the one subscriber \<^verbatim>\<open>u1\<close>. Subscribing \<^verbatim>\<open>u1\<close> changes nothing,
  unsubscribing then removes \<^verbatim>\<open>u1\<close>: the membership is empty and not what it was.
\<close>

theorem subscribe_twice_counterexample:
  "set (subscribersOf sampleTicket) = {Str ''u1''}
   \<and> set (subscribersOf (subscribeTwice sampleEnv (Str ''t1'') sampleTicket (Str ''u1'')
                            (Bool True) (Bool False))) = {}
   \<and> set (subscribersOf (subscribeTwice sampleEnv (Str ''t1'') sampleTicket (Str ''u1'')
                            (Bool True) (Bool False)))
       \<noteq> set (subscribersOf sampleTicket)"
  by (simp add: subscribe_on_off_sample) (simp add: subscribersOf_def sampleTicket_def)

end
